theory Spec2Isabelle
  imports Complex_Main "HOL-Library.Char_ord" "HOL-Library.List_Lexorder"
begin

text \<open>
  A model of the parts of the job-board API that build SQL from request data: the
  partial update compiler, the filter query compilers of companies and jobs, the query
  checks of the two list routes, and the model functions \<open>Company.get\<close> and \<open>Job.update\<close>.
  The definitions follow the JavaScript source function by function; the theorems after
  them settle the claims made about it.
\<close>

section \<open>JavaScript values\<close>

text \<open>
  The models take and return JavaScript values. Only the primitive values occur in the
  functions treated here. A Number is kept as an extended rational: every finite double
  is a rational, and the code only tests Numbers for truthiness and compares them, so no
  rounding enters.
\<close>

datatype number = NaN | NegInf | Fin rat | PosInf

datatype jsval = Undefined | Null | Bool bool | Number number | Str string

text \<open>
  An object is the list of its own enumerable properties in the order in which
  \<^verbatim>\<open>Object.keys\<close> and \<^verbatim>\<open>Object.values\<close> enumerate them; an object has no
  two properties of one name.
\<close>

type_synonym js_object = "(string \<times> jsval) list"

definition Object_keys :: "js_object \<Rightarrow> string list" where
  "Object_keys obj = map fst obj"

definition Object_values :: "js_object \<Rightarrow> jsval list" where
  "Object_values obj = map snd obj"

text \<open>
  \<^verbatim>\<open>obj[key]\<close>: the property's value, \<^verbatim>\<open>undefined\<close> when there is none. The models
  read with it the keys an object owns and the six filter names, none of which an
  object inherits.
\<close>

definition js_get :: "js_object \<Rightarrow> string \<Rightarrow> jsval" where
  "js_get obj key = (case map_of obj key of None \<Rightarrow> Undefined | Some v \<Rightarrow> v)"

text \<open>\<^verbatim>\<open>delete obj[key]\<close> on an object.\<close>

definition js_delete :: "string \<Rightarrow> js_object \<Rightarrow> js_object" where
  "js_delete key obj = filter (\<lambda>p. fst p \<noteq> key) obj"

text \<open>
  The conversions between strings and Numbers belong to the language runtime, not to the
  repository, and so does the text that interpolating a member of \<^verbatim>\<open>Object.prototype\<close>
  gives (\<open>MemberToString\<close>, by the member's name); the models take them as a parameter
  and every theorem holds for any runtime.
\<close>

record runtime =
  StringToNumber :: "string \<Rightarrow> number"
  NumberToString :: "number \<Rightarrow> string"
  MemberToString :: "string \<Rightarrow> string"

text \<open>
  The names under which an object literal finds a member it does not own: the
  properties of \<^verbatim>\<open>Object.prototype\<close>. Each of them is a function or an object, hence
  truthy.
\<close>

definition Object_prototype_members :: "string list" where
  "Object_prototype_members =
     [''constructor'', ''__defineGetter__'', ''__defineSetter__'', ''hasOwnProperty'',
      ''__lookupGetter__'', ''__lookupSetter__'', ''isPrototypeOf'',
      ''propertyIsEnumerable'', ''toString'', ''valueOf'', ''__proto__'',
      ''toLocaleString'']"

text \<open>Truthiness, as \<^verbatim>\<open>if (v)\<close> and \<^verbatim>\<open>v || w\<close> test it.\<close>

fun truthy :: "jsval \<Rightarrow> bool" where
  "truthy Undefined = False"
| "truthy Null = False"
| "truthy (Bool b) = b"
| "truthy (Number NaN) = False"
| "truthy (Number (Fin r)) = (r \<noteq> 0)"
| "truthy (Number NegInf) = True"
| "truthy (Number PosInf) = True"
| "truthy (Str s) = (s \<noteq> [])"

text \<open>\<^verbatim>\<open>v != null\<close> is false exactly for \<^verbatim>\<open>null\<close> and \<^verbatim>\<open>undefined\<close>.\<close>

fun ne_null :: "jsval \<Rightarrow> bool" where
  "ne_null Undefined = False"
| "ne_null Null = False"
| "ne_null v = True"

text \<open>A parameter declared \<^verbatim>\<open>p = null\<close> takes the default when the argument is \<^verbatim>\<open>undefined\<close>.\<close>

fun default_null :: "jsval \<Rightarrow> jsval" where
  "default_null Undefined = Null"
| "default_null v = v"

text \<open>String interpolation \<^verbatim>\<open>`${v}`\<close>.\<close>

fun ToString :: "runtime \<Rightarrow> jsval \<Rightarrow> string" where
  "ToString rt Undefined = ''undefined''"
| "ToString rt Null = ''null''"
| "ToString rt (Bool b) = (if b then ''true'' else ''false'')"
| "ToString rt (Number n) = NumberToString rt n"
| "ToString rt (Str s) = s"

text \<open>Unary plus \<^verbatim>\<open>+v\<close>, and the conversion \<^verbatim>\<open>isNaN\<close> and \<^verbatim>\<open><\<close> apply.\<close>

fun ToNumber :: "runtime \<Rightarrow> jsval \<Rightarrow> number" where
  "ToNumber rt Undefined = NaN"
| "ToNumber rt Null = Fin 0"
| "ToNumber rt (Bool b) = (if b then Fin 1 else Fin 0)"
| "ToNumber rt (Number n) = n"
| "ToNumber rt (Str s) = StringToNumber rt s"

definition isNaN :: "runtime \<Rightarrow> jsval \<Rightarrow> bool" where
  "isNaN rt v = (ToNumber rt v = NaN)"

fun number_less :: "number \<Rightarrow> number \<Rightarrow> bool" where
  "number_less NaN y = False"
| "number_less x NaN = False"
| "number_less PosInf y = False"
| "number_less x NegInf = False"
| "number_less NegInf y = True"
| "number_less x PosInf = True"
| "number_less (Fin a) (Fin b) = (a < b)"

text \<open>
  \<^verbatim>\<open>x < y\<close>: two strings are compared as strings, character by character, anything
  else as Numbers, and a comparison with \<^verbatim>\<open>NaN\<close> is false.
\<close>

fun js_less :: "runtime \<Rightarrow> jsval \<Rightarrow> jsval \<Rightarrow> bool" where
  "js_less rt (Str s) (Str t) = (s < t)"
| "js_less rt x y = number_less (ToNumber rt x) (ToNumber rt y)"

subsection \<open>Decimal numerals and joining\<close>

text \<open>The decimal form of a natural number, as interpolating an array index gives it.\<close>

fun show_nat :: "nat \<Rightarrow> string" where
  "show_nat n =
     (if n < 10 then [''0123456789'' ! n]
      else show_nat (n div 10) @ [''0123456789'' ! (n mod 10)])"

declare show_nat.simps [simp del]

text \<open>\<^verbatim>\<open>Array.prototype.join\<close> on an array of strings.\<close>

fun join :: "string \<Rightarrow> string list \<Rightarrow> string" where
  "join sep [] = []"
| "join sep [x] = x"
| "join sep (x # y # ys) = x @ sep @ join sep (y # ys)"

section \<open>Errors\<close>

text \<open>
  The error classes the models raise, each with its message, and the failure of a
  statement inside the store.
\<close>

datatype error = BadRequestError string | NotFoundError string | DatabaseError

section \<open>The partial update compiler (helpers/sql.js)\<close>

text \<open>
  \<^verbatim>\<open>jsToSql[colName] || colName\<close>. The override mapping is an object literal, given
  here by the column names it owns. Reading it under a field name finds the column
  name it owns for that field; that one is used unless it is the empty string, which is
  falsy and gives way to the field name. Where the mapping owns nothing for the field,
  the read still finds a member when the field is named like one that every object
  inherits (\<^verbatim>\<open>constructor\<close>, \<^verbatim>\<open>toString\<close>, ...): the member is truthy and its text
  becomes the column. Otherwise the read gives \<^verbatim>\<open>undefined\<close> and the field keeps its
  name.
\<close>

definition sql_column :: "runtime \<Rightarrow> (string \<rightharpoonup> string) \<Rightarrow> string \<Rightarrow> string" where
  "sql_column rt jsToSql colName =
     (case jsToSql colName of
        Some c \<Rightarrow> if c \<noteq> [] then c else colName
      | None \<Rightarrow>
          if colName \<in> set Object_prototype_members then MemberToString rt colName
          else colName)"

definition set_fragment ::
  "runtime \<Rightarrow> (string \<rightharpoonup> string) \<Rightarrow> string \<Rightarrow> nat \<Rightarrow> string" where
  \<open>set_fragment rt jsToSql colName idx =
     ''"'' @ sql_column rt jsToSql colName @ ''"=$'' @ show_nat (idx + 1)\<close>

record update_sql =
  setCols :: string
  sql_values :: "jsval list"

definition sqlForPartialUpdate ::
  "runtime \<Rightarrow> js_object \<Rightarrow> (string \<rightharpoonup> string) \<Rightarrow> error + update_sql" where
  "sqlForPartialUpdate rt dataToUpdate jsToSql =
     (let keys = Object_keys dataToUpdate in
      if length keys = 0 then Inl (BadRequestError ''No data'')
      else
        let cols = map (\<lambda>(colName, idx). set_fragment rt jsToSql colName idx)
                       (zip keys [0..<length keys])
        in Inr \<lparr>setCols = join '', '' cols, sql_values = Object_values dataToUpdate\<rparr>)"

section \<open>The store\<close>

text \<open>
  The statements the models send to the store. Each constructor stands for one SQL
  template of the source, with the text the code splices into it:
  \<^item> \<open>SelectCompanies w\<close>: \<^verbatim>\<open>SELECT handle, name, description, num_employees AS "numEmployees", logo_url AS "logoUrl" FROM companies ${w} ORDER BY name\<close>;
  \<^item> \<open>SelectCompanyByHandle\<close>: the same projection \<^verbatim>\<open>FROM companies WHERE handle = $1\<close>;
  \<^item> \<open>SelectJobsOfCompany\<close>: \<^verbatim>\<open>SELECT id, title, salary, equity FROM jobs WHERE company_handle = $1 ORDER BY id\<close>;
  \<^item> \<open>SelectJobs w\<close>: \<^verbatim>\<open>SELECT id, title, salary, equity, company_handle AS "companyHandle" FROM jobs ${w} ORDER BY id\<close>;
  \<^item> \<open>UpdateJobs s i\<close>: \<^verbatim>\<open>UPDATE jobs SET ${s} WHERE id = ${i} RETURNING id, title, salary, equity, company_handle AS "companyHandle"\<close>.
\<close>

datatype statement =
    SelectCompanies string
  | SelectCompanyByHandle
  | SelectJobsOfCompany
  | SelectJobs string
  | UpdateJobs string string

text \<open>
  Modelled from the spec: the tables of the relational store (section 3 of the
  specification); the schema and the database module are not among the sources. A
  company's number of employees and logo, and a job's salary and equity, may be null.
  Equity is an exact decimal.
\<close>

record company =
  handle :: string
  name :: string
  description :: string
  numEmployees :: "int option"
  logoUrl :: "string option"

record job_summary =
  job_id :: int
  title :: string
  salary :: "int option"
  equity :: "rat option"

record job = job_summary +
  companyHandle :: string

record store =
  companies_table :: "company list"
  jobs_table :: "job list"

datatype row = CompanyRow company | JobSummaryRow job_summary | JobRow job

text \<open>
  \<^verbatim>\<open>db.query(text, params)\<close>: a statement and its parameters run against the store and
  give the result rows or fail; the store may change. The models are written for any
  such function.
\<close>

type_synonym 'db db_query = "statement \<Rightarrow> jsval list \<Rightarrow> 'db \<Rightarrow> (error + row list) \<times> 'db"

subsection \<open>Reading the WHERE clause of the company filter\<close>

text \<open>
  Modelled from the spec: how the store reads the three conditions the company filter
  emits (section 4.2 of the specification: \<open>name\<close> by case-insensitive pattern match,
  \<open>minEmployees\<close> and \<open>maxEmployees\<close> against \<open>numEmployees\<close> with \<open>>=\<close> and \<open><=\<close>).
  The clause is empty, or \<^verbatim>\<open>WHERE\<close> and one condition followed by any number of
  \<^verbatim>\<open>AND\<close> and a condition; a condition names a column, an operator and a positional
  parameter \<^verbatim>\<open>$k\<close>, and ends with a blank.
\<close>

datatype company_cond = NameILike nat | EmployeesGe nat | EmployeesLe nat

fun strip_prefix :: "string \<Rightarrow> string \<Rightarrow> string option" where
  "strip_prefix [] s = Some s"
| "strip_prefix (p # ps) [] = None"
| "strip_prefix (p # ps) (c # cs) = (if p = c then strip_prefix ps cs else None)"

definition is_digit :: "char \<Rightarrow> bool" where
  "is_digit c = (c \<in> set ''0123456789'')"

definition digit_value :: "char \<Rightarrow> nat" where
  "digit_value c = of_char c - 48"

fun read_digits :: "nat \<Rightarrow> string \<Rightarrow> nat \<times> string" where
  "read_digits acc [] = (acc, [])"
| "read_digits acc (c # cs) =
     (if is_digit c then read_digits (10 * acc + digit_value c) cs else (acc, c # cs))"

definition read_placeholder :: "string \<Rightarrow> (nat \<times> string) option" where
  "read_placeholder s =
     (case s of
        [] \<Rightarrow> None
      | c # cs \<Rightarrow> if is_digit c then Some (read_digits 0 s) else None)"

definition read_operand :: "(nat \<Rightarrow> company_cond) \<Rightarrow> string \<Rightarrow> (company_cond \<times> string) option" where
  "read_operand cond s =
     (case read_placeholder s of
        None \<Rightarrow> None
      | Some (k, r) \<Rightarrow>
          (case strip_prefix '' '' r of None \<Rightarrow> None | Some r' \<Rightarrow> Some (cond k, r')))"

definition parse_company_cond :: "string \<Rightarrow> (company_cond \<times> string) option" where
  "parse_company_cond s =
     (case strip_prefix ''name ILIKE $'' s of
        Some r \<Rightarrow> read_operand NameILike r
      | None \<Rightarrow>
     (case strip_prefix ''num_employees >= $'' s of
        Some r \<Rightarrow> read_operand EmployeesGe r
      | None \<Rightarrow>
     (case strip_prefix ''num_employees <= $'' s of
        Some r \<Rightarrow> read_operand EmployeesLe r
      | None \<Rightarrow> None)))"

text \<open>The conditions after the first; the first argument bounds their number.\<close>

fun parse_company_ands :: "nat \<Rightarrow> string \<Rightarrow> company_cond list option" where
  "parse_company_ands 0 s = (if s = [] then Some [] else None)"
| "parse_company_ands (Suc fuel) s =
     (if s = [] then Some []
      else
        (case strip_prefix ''AND '' s of
           None \<Rightarrow> None
         | Some r \<Rightarrow>
             (case parse_company_cond r of
                None \<Rightarrow> None
              | Some (c, r') \<Rightarrow> map_option ((#) c) (parse_company_ands fuel r'))))"

definition parse_company_where :: "string \<Rightarrow> company_cond list option" where
  "parse_company_where s =
     (if s = [] then Some []
      else
        (case strip_prefix ''WHERE '' s of
           None \<Rightarrow> None
         | Some r \<Rightarrow>
             (case parse_company_cond r of
                None \<Rightarrow> None
              | Some (c, r') \<Rightarrow> map_option ((#) c) (parse_company_ands (length r') r'))))"

text \<open>The parameter \<^verbatim>\<open>$k\<close> of a statement run with the list \<open>params\<close>.\<close>

definition param_at :: "jsval list \<Rightarrow> nat \<Rightarrow> jsval option" where
  "param_at params k = (if 1 \<le> k \<and> k \<le> length params then Some (params ! (k - 1)) else None)"

text \<open>
  A parameter compared with an integer column: \<^verbatim>\<open>null\<close> and \<^verbatim>\<open>undefined\<close> are the SQL
  null (\<open>Some None\<close>), an integer-valued Number is its integer, and the store refuses
  (\<open>None\<close>) every other value in this model.
\<close>

fun int_param :: "jsval \<Rightarrow> int option option" where
  "int_param Undefined = Some None"
| "int_param Null = Some None"
| "int_param (Number (Fin r)) = (if of_int (floor r) = r then Some (Some (floor r)) else None)"
| "int_param v = None"

text \<open>
  The row predicate of one condition; a comparison with the SQL null holds of no row.
  The pattern match \<open>ilike text pattern\<close> is the store's own and is left open.
\<close>

fun company_cond_pred ::
  "runtime \<Rightarrow> (string \<Rightarrow> string \<Rightarrow> bool) \<Rightarrow> jsval list \<Rightarrow> company_cond \<Rightarrow> (company \<Rightarrow> bool) option" where
  "company_cond_pred rt ilike params (NameILike k) =
     (case param_at params k of
        None \<Rightarrow> None
      | Some v \<Rightarrow>
          if ne_null v then Some (\<lambda>c. ilike (name c) (ToString rt v)) else Some (\<lambda>c. False))"
| "company_cond_pred rt ilike params (EmployeesGe k) =
     (case param_at params k of
        None \<Rightarrow> None
      | Some v \<Rightarrow>
          (case int_param v of
             None \<Rightarrow> None
           | Some None \<Rightarrow> Some (\<lambda>c. False)
           | Some (Some n) \<Rightarrow>
               Some (\<lambda>c. case numEmployees c of None \<Rightarrow> False | Some m \<Rightarrow> n \<le> m)))"
| "company_cond_pred rt ilike params (EmployeesLe k) =
     (case param_at params k of
        None \<Rightarrow> None
      | Some v \<Rightarrow>
          (case int_param v of
             None \<Rightarrow> None
           | Some None \<Rightarrow> Some (\<lambda>c. False)
           | Some (Some n) \<Rightarrow>
               Some (\<lambda>c. case numEmployees c of None \<Rightarrow> False | Some m \<Rightarrow> m \<le> n)))"

definition select_companies ::
  "runtime \<Rightarrow> (string \<Rightarrow> string \<Rightarrow> bool) \<Rightarrow> string \<Rightarrow> jsval list \<Rightarrow> store \<Rightarrow> error + row list" where
  "select_companies rt ilike whereClause params db =
     (case parse_company_where whereClause of
        None \<Rightarrow> Inl DatabaseError
      | Some conds \<Rightarrow>
          (case those (map (company_cond_pred rt ilike params) conds) of
             None \<Rightarrow> Inl DatabaseError
           | Some preds \<Rightarrow>
               Inr (map CompanyRow
                     (sort_key name
                        (filter (\<lambda>c. list_all (\<lambda>p. p c) preds) (companies_table db))))))"

subsection \<open>The two statements of Company.get\<close>

text \<open>
  Modelled from the spec: the company with a given handle, and the job summaries
  (id, title, salary, equity) of a company ordered by id (section 4.3 of the
  specification). A null parameter equals no handle.
\<close>

definition select_company_by_handle :: "runtime \<Rightarrow> jsval list \<Rightarrow> store \<Rightarrow> error + row list" where
  "select_company_by_handle rt params db =
     (case params of
        [h] \<Rightarrow>
          Inr (map CompanyRow
                (filter (\<lambda>c. ne_null h \<and> handle c = ToString rt h) (companies_table db)))
      | _ \<Rightarrow> Inl DatabaseError)"

definition select_jobs_of_company :: "runtime \<Rightarrow> jsval list \<Rightarrow> store \<Rightarrow> error + row list" where
  "select_jobs_of_company rt params db =
     (case params of
        [h] \<Rightarrow>
          Inr (map (\<lambda>j. JobSummaryRow (job_summary.truncate j))
                (sort_key job_id
                   (filter (\<lambda>j. ne_null h \<and> companyHandle j = ToString rt h) (jobs_table db))))
      | _ \<Rightarrow> Inl DatabaseError)"

text \<open>
  The store as far as it is modelled: the three reading statements above, which leave
  the store as it is; every other statement is passed to \<open>other\<close>.
\<close>

definition store_query ::
  "runtime \<Rightarrow> (string \<Rightarrow> string \<Rightarrow> bool) \<Rightarrow> store db_query \<Rightarrow> store db_query" where
  "store_query rt ilike other stmt params db =
     (case stmt of
        SelectCompanies whereClause \<Rightarrow> (select_companies rt ilike whereClause params db, db)
      | SelectCompanyByHandle \<Rightarrow> (select_company_by_handle rt params db, db)
      | SelectJobsOfCompany \<Rightarrow> (select_jobs_of_company rt params db, db)
      | _ \<Rightarrow> other stmt params db)"

section \<open>The filter query compilers (models/company.js, models/job.js)\<close>

text \<open>
  The three variables a compiler accumulates into: the clause, the parameter list and
  the number of the next positional parameter.
\<close>

record filter_state =
  whereClause :: string
  args :: "jsval list"
  argIndex :: nat

definition where_or_and :: "nat \<Rightarrow> string" where
  "where_or_and i = (if i = 1 then ''WHERE '' else ''AND '')"

text \<open>
  The block the source repeats for a filter that takes a parameter: \<^verbatim>\<open>WHERE\<close> or
  \<^verbatim>\<open>AND\<close>, the condition with the current parameter number, the pushed argument and
  the increment.
\<close>

definition add_filter :: "string \<Rightarrow> jsval \<Rightarrow> filter_state \<Rightarrow> filter_state" where
  "add_filter cond arg st =
     \<lparr>whereClause =
        whereClause st @ where_or_and (argIndex st) @ cond @ show_nat (argIndex st) @ '' '',
      args = args st @ [arg],
      argIndex = argIndex st + 1\<rparr>"

definition min_exceeds_max :: "runtime \<Rightarrow> jsval \<Rightarrow> jsval \<Rightarrow> bool" where
  "min_exceeds_max rt minEmployees maxEmployees =
     (ne_null minEmployees \<and> ne_null maxEmployees \<and> js_less rt maxEmployees minEmployees)"

definition min_exceeds_max_message :: "runtime \<Rightarrow> jsval \<Rightarrow> jsval \<Rightarrow> string" where
  "min_exceeds_max_message rt minEmployees maxEmployees =
     ''Filter minimum ('' @ ToString rt minEmployees
       @ '') specified is greater than maximum ('' @ ToString rt maxEmployees @ '')''"

text \<open>
  Company.findAll up to the query: the validation, then the clause and the parameter
  list.
\<close>

definition Company_findAll_build ::
  "runtime \<Rightarrow> jsval \<Rightarrow> jsval \<Rightarrow> jsval \<Rightarrow> error + (string \<times> jsval list)" where
  "Company_findAll_build rt nameFilter0 minEmployees0 maxEmployees0 =
     (let nameFilter = default_null nameFilter0;
          minEmployees = default_null minEmployees0;
          maxEmployees = default_null maxEmployees0;
          st0 = \<lparr>whereClause = [], args = [], argIndex = 1\<rparr>
      in
        if min_exceeds_max rt minEmployees maxEmployees
        then Inl (BadRequestError (min_exceeds_max_message rt minEmployees maxEmployees))
        else
          let st1 = (if truthy nameFilter
                     then add_filter ''name ILIKE $''
                            (Str (''%'' @ ToString rt nameFilter @ ''%'')) st0
                     else st0);
              st2 = (if truthy minEmployees
                     then add_filter ''num_employees >= $'' minEmployees st1
                     else st1);
              st3 = (if truthy maxEmployees
                     then add_filter ''num_employees <= $'' maxEmployees st2
                     else st2)
          in Inr (whereClause st3, args st3))"

definition Company_findAll ::
  "runtime \<Rightarrow> 'db db_query \<Rightarrow> 'db \<Rightarrow> jsval \<Rightarrow> jsval \<Rightarrow> jsval \<Rightarrow> (error + row list) \<times> 'db" where
  "Company_findAll rt query db nameFilter minEmployees maxEmployees =
     (case Company_findAll_build rt nameFilter minEmployees maxEmployees of
        Inl e \<Rightarrow> (Inl e, db)
      | Inr (w, params) \<Rightarrow> query (SelectCompanies w) params db)"

text \<open>Job.findAll up to the query. The equity filter takes no parameter.\<close>

definition Job_findAll_build ::
  "runtime \<Rightarrow> jsval \<Rightarrow> jsval \<Rightarrow> jsval \<Rightarrow> string \<times> jsval list" where
  "Job_findAll_build rt titleFilter0 minSalary0 hasEquity0 =
     (let titleFilter = default_null titleFilter0;
          minSalary = default_null minSalary0;
          hasEquity = default_null hasEquity0;
          st0 = \<lparr>whereClause = [], args = [], argIndex = 1\<rparr>;
          st1 = (if truthy titleFilter
                 then add_filter ''title ILIKE $''
                        (Str (''%'' @ ToString rt titleFilter @ ''%'')) st0
                 else st0);
          st2 = (if truthy minSalary
                 then add_filter ''salary >= $'' (Str (ToString rt minSalary)) st1
                 else st1);
          st3 = (if truthy hasEquity
                 then st2\<lparr>whereClause :=
                        whereClause st2 @ where_or_and (argIndex st2) @ ''equity > 0 ''\<rparr>
                 else st2)
      in (whereClause st3, args st3))"

definition Job_findAll ::
  "runtime \<Rightarrow> 'db db_query \<Rightarrow> 'db \<Rightarrow> jsval \<Rightarrow> jsval \<Rightarrow> jsval \<Rightarrow> (error + row list) \<times> 'db" where
  "Job_findAll rt query db titleFilter minSalary hasEquity =
     (case Job_findAll_build rt titleFilter minSalary hasEquity of
        (w, params) \<Rightarrow> query (SelectJobs w) params db)"

section \<open>Company.get and Job.update\<close>

text \<open>The company row with the rows of its jobs attached as \<open>jobs\<close>.\<close>

record company_with_jobs =
  company_row :: row
  jobs :: "row list"

definition Company_get ::
  "runtime \<Rightarrow> 'db db_query \<Rightarrow> 'db \<Rightarrow> jsval \<Rightarrow> (error + company_with_jobs) \<times> 'db" where
  "Company_get rt query db h =
     (case query SelectCompanyByHandle [h] db of
        (Inl e, db1) \<Rightarrow> (Inl e, db1)
      | (Inr companyRes, db1) \<Rightarrow>
          (case companyRes of
             [] \<Rightarrow> (Inl (NotFoundError (''No company: '' @ ToString rt h)), db1)
           | company # _ \<Rightarrow>
               (case query SelectJobsOfCompany [h] db1 of
                  (Inl e, db2) \<Rightarrow> (Inl e, db2)
                | (Inr jobRes, db2) \<Rightarrow>
                    (Inr \<lparr>company_row = company, jobs = jobRes\<rparr>, db2))))"

text \<open>The override mapping Job.update passes to the compiler.\<close>

definition job_jsToSql :: "string \<rightharpoonup> string" where
  "job_jsToSql = [''companyHandle'' \<mapsto> ''company_handle'']"

text \<open>
  Job.update up to the statement: the copy of the payload without its
  \<open>companyHandle\<close> property goes through the compiler, and the id is the last
  parameter.
\<close>

definition Job_update_build ::
  "runtime \<Rightarrow> jsval \<Rightarrow> js_object \<Rightarrow> error + (statement \<times> jsval list)" where
  "Job_update_build rt jobId data =
     (let dataToChange = js_delete ''companyHandle'' data in
      case sqlForPartialUpdate rt dataToChange job_jsToSql of
        Inl e \<Rightarrow> Inl e
      | Inr u \<Rightarrow>
          let idx = ''$'' @ show_nat (length (sql_values u) + 1)
          in Inr (UpdateJobs (setCols u) idx, sql_values u @ [jobId]))"

definition Job_update ::
  "runtime \<Rightarrow> 'db db_query \<Rightarrow> 'db \<Rightarrow> jsval \<Rightarrow> js_object \<Rightarrow> (error + row) \<times> 'db" where
  "Job_update rt query db jobId data =
     (case Job_update_build rt jobId data of
        Inl e \<Rightarrow> (Inl e, db)
      | Inr (querySql, params) \<Rightarrow>
          (case query querySql params db of
             (Inl e, db1) \<Rightarrow> (Inl e, db1)
           | (Inr [], db1) \<Rightarrow> (Inl (NotFoundError (''No job: '' @ ToString rt jobId)), db1)
           | (Inr (job # _), db1) \<Rightarrow> (Inr job, db1)))"

section \<open>The list routes (routes/companies.js, routes/jobs.js)\<close>

text \<open>
  The loop of a query check over the keys of the query object: the first offending key
  ends it with its message, and \<open>None\<close> is the source's \<^verbatim>\<open>null\<close>. The values of a
  parsed query string are taken to be primitive values, strings as a rule.
\<close>

fun checkCompanyGetQuery_loop :: "runtime \<Rightarrow> js_object \<Rightarrow> string list \<Rightarrow> string option" where
  "checkCompanyGetQuery_loop rt queries [] = None"
| "checkCompanyGetQuery_loop rt queries (query # rest) =
     (if query \<noteq> ''maxEmployees'' \<and> query \<noteq> ''minEmployees'' \<and> query \<noteq> ''name''
      then Some (''bad query: '' @ query)
      else if (query = ''minEmployees'' \<or> query = ''maxEmployees'')
              \<and> isNaN rt (js_get queries query)
      then Some (query @ '' ('' @ ToString rt (js_get queries query) @ '') must be a number'')
      else checkCompanyGetQuery_loop rt queries rest)"

definition checkCompanyGetQuery :: "runtime \<Rightarrow> js_object \<Rightarrow> string option" where
  "checkCompanyGetQuery rt queries = checkCompanyGetQuery_loop rt queries (Object_keys queries)"

fun checkJobGetQuery_loop :: "runtime \<Rightarrow> js_object \<Rightarrow> string list \<Rightarrow> string option" where
  "checkJobGetQuery_loop rt queries [] = None"
| "checkJobGetQuery_loop rt queries (query # rest) =
     (if query \<noteq> ''titleFilter'' \<and> query \<noteq> ''minSalary'' \<and> query \<noteq> ''hasEquity''
      then Some (''bad query: '' @ query)
      else if query = ''minSalary'' \<and> isNaN rt (js_get queries query)
      then Some (query @ '' ('' @ ToString rt (js_get queries query) @ '') must be a number'')
      else checkJobGetQuery_loop rt queries rest)"

definition checkJobGetQuery :: "runtime \<Rightarrow> js_object \<Rightarrow> string option" where
  "checkJobGetQuery rt queries = checkJobGetQuery_loop rt queries (Object_keys queries)"

text \<open>
  The handlers of \<^verbatim>\<open>GET /companies\<close> and \<^verbatim>\<open>GET /jobs\<close> on the parsed query string: the
  error handed to the error handler, or the rows of the response. The company handler
  turns both bounds into Numbers with unary plus; the job handler passes the query
  values as they are.
\<close>

definition get_companies ::
  "runtime \<Rightarrow> 'db db_query \<Rightarrow> 'db \<Rightarrow> js_object \<Rightarrow> (error + row list) \<times> 'db" where
  "get_companies rt query db req_query =
     (case checkCompanyGetQuery rt req_query of
        Some msg \<Rightarrow> (Inl (BadRequestError msg), db)
      | None \<Rightarrow>
          Company_findAll rt query db
            (js_get req_query ''name'')
            (Number (ToNumber rt (js_get req_query ''minEmployees'')))
            (Number (ToNumber rt (js_get req_query ''maxEmployees''))))"

definition get_jobs ::
  "runtime \<Rightarrow> 'db db_query \<Rightarrow> 'db \<Rightarrow> js_object \<Rightarrow> (error + row list) \<times> 'db" where
  "get_jobs rt query db req_query =
     (case checkJobGetQuery rt req_query of
        Some msg \<Rightarrow> (Inl (BadRequestError msg), db)
      | None \<Rightarrow>
          Job_findAll rt query db
            (js_get req_query ''titleFilter'')
            (js_get req_query ''minSalary'')
            (js_get req_query ''hasEquity''))"

text \<open>
  Modelled from the spec: the HTTP status of an error (section 7 of the specification);
  the error classes and the error handler are not among the sources.
\<close>

fun http_status :: "error \<Rightarrow> nat" where
  "http_status (BadRequestError msg) = 400"
| "http_status (NotFoundError msg) = 404"
| "http_status DatabaseError = 500"

section \<open>The specification's wording, as definitions\<close>

text \<open>
  Section 4.1 of the specification resolves the column of a field "via the override
  mapping, defaulting to the field name unchanged if absent", and gives the output as
  the fragments \<open>"column"=$i\<close>, numbered from 1 in the order of the fields and joined by
  a comma and a blank, with the values in the same order.
\<close>

definition claimed_column :: "(string \<rightharpoonup> string) \<Rightarrow> string \<Rightarrow> string" where
  "claimed_column jsToSql colName = (case jsToSql colName of None \<Rightarrow> colName | Some c \<Rightarrow> c)"

definition claimed_update_sql :: "js_object \<Rightarrow> (string \<rightharpoonup> string) \<Rightarrow> update_sql" where
  \<open>claimed_update_sql dataToUpdate jsToSql =
     \<lparr>setCols =
        join '', ''
          (map (\<lambda>i. ''"'' @ claimed_column jsToSql (fst (dataToUpdate ! i)) @ ''"=$''
                      @ show_nat (i + 1))
               [0..<length dataToUpdate]),
      sql_values = map snd dataToUpdate\<rparr>\<close>

text \<open>
  Section 4.2 of the specification assembles the clause from the active filters in
  their declared order: "the first active filter uses WHERE, every subsequent active
  filter uses AND", and the placeholders are numbered in the order of the argument
  list. An active filter is given here by its condition, as a function of the number of
  its placeholder, and by its argument when it has one. The placeholder of a filter
  is numbered one more than the count of arguments before it.
\<close>

type_synonym active_filter = "(nat \<Rightarrow> string) \<times> jsval option"

definition placeholder_number :: "active_filter list \<Rightarrow> nat \<Rightarrow> nat" where
  "placeholder_number fs k = 1 + length (filter (\<lambda>f. snd f \<noteq> None) (take k fs))"

definition assembled_clause :: "active_filter list \<Rightarrow> string" where
  "assembled_clause fs =
     concat (map (\<lambda>k. (if k = 0 then ''WHERE '' else ''AND '')
                        @ fst (fs ! k) (placeholder_number fs k))
                 [0..<length fs])"

definition assembled_args :: "active_filter list \<Rightarrow> jsval list" where
  "assembled_args fs = List.map_filter snd fs"

text \<open>
  The filters of each resource in their declared order, each with the value that
  decides whether it is active: a filter is active when its value is truthy.
\<close>

definition company_filters ::
  "runtime \<Rightarrow> jsval \<Rightarrow> jsval \<Rightarrow> jsval \<Rightarrow> (jsval \<times> active_filter) list" where
  "company_filters rt nameFilter minEmployees maxEmployees =
     [(nameFilter, (\<lambda>i. ''name ILIKE $'' @ show_nat i @ '' '',
                    Some (Str (''%'' @ ToString rt nameFilter @ ''%'')))),
      (minEmployees, (\<lambda>i. ''num_employees >= $'' @ show_nat i @ '' '', Some minEmployees)),
      (maxEmployees, (\<lambda>i. ''num_employees <= $'' @ show_nat i @ '' '', Some maxEmployees))]"

definition job_filters ::
  "runtime \<Rightarrow> jsval \<Rightarrow> jsval \<Rightarrow> jsval \<Rightarrow> (jsval \<times> active_filter) list" where
  "job_filters rt titleFilter minSalary hasEquity =
     [(titleFilter, (\<lambda>i. ''title ILIKE $'' @ show_nat i @ '' '',
                     Some (Str (''%'' @ ToString rt titleFilter @ ''%'')))),
      (minSalary, (\<lambda>i. ''salary >= $'' @ show_nat i @ '' '', Some (Str (ToString rt minSalary)))),
      (hasEquity, (\<lambda>i. ''equity > 0 '', None))]"

definition active_filters :: "(jsval \<times> active_filter) list \<Rightarrow> active_filter list" where
  "active_filters fs = map snd (filter (\<lambda>p. truthy (fst p)) fs)"

text \<open>
  Section 8 of the specification, generalised by the claim from \<open>minEmployees=2\<close> to any
  \<open>n\<close>: the companies with at least \<open>n\<close> employees, in the order of the result.
\<close>

definition companies_with_at_least :: "int \<Rightarrow> store \<Rightarrow> row list" where
  "companies_with_at_least n db =
     map CompanyRow
       (sort_key name
          (filter (\<lambda>c. case numEmployees c of None \<Rightarrow> False | Some m \<Rightarrow> n \<le> m)
                  (companies_table db)))"

section \<open>Concrete inputs\<close>

text \<open>
  A runtime to evaluate the models at concrete inputs. It follows Node where the
  evaluations below consult it: the decimal form of an integer; a string of decimal
  digits, with blanks around it or none, as that number, the empty and the blank string
  as 0; and the text of the members of \<^verbatim>\<open>Object.prototype\<close>. Every other string it
  takes for \<^verbatim>\<open>NaN\<close>, where ECMAScript also reads signs, fractions, exponents, other
  radixes and \<^verbatim>\<open>Infinity\<close>.
\<close>

definition show_int :: "int \<Rightarrow> string" where
  "show_int i = (if i < 0 then ''-'' @ show_nat (nat (- i)) else show_nat (nat i))"

fun decimal_NumberToString :: "number \<Rightarrow> string" where
  "decimal_NumberToString NaN = ''NaN''"
| "decimal_NumberToString PosInf = ''Infinity''"
| "decimal_NumberToString NegInf = ''-Infinity''"
| "decimal_NumberToString (Fin r) = show_int (floor r)"

definition is_blank :: "char \<Rightarrow> bool" where
  "is_blank c = (c \<in> set [CHR '' '', CHR 0x09, CHR 0x0A, CHR 0x0B, CHR 0x0C, CHR 0x0D])"

definition trim :: "string \<Rightarrow> string" where
  "trim s = rev (dropWhile is_blank (rev (dropWhile is_blank s)))"

definition decimal_StringToNumber :: "string \<Rightarrow> number" where
  "decimal_StringToNumber s =
     (if list_all is_digit (trim s) then Fin (of_nat (fst (read_digits 0 (trim s)))) else NaN)"

definition decimal_MemberToString :: "string \<Rightarrow> string" where
  "decimal_MemberToString member =
     (if member = ''__proto__'' then ''[object Object]''
      else ''function '' @ (if member = ''constructor'' then ''Object'' else member)
             @ ''() { [native code] }'')"

definition decimal_runtime :: runtime where
  "decimal_runtime =
     \<lparr>StringToNumber = decimal_StringToNumber, NumberToString = decimal_NumberToString,
      MemberToString = decimal_MemberToString\<rparr>"

text \<open>
  The companies and jobs that the repository's tests load
  (\<^verbatim>\<open>commonBeforeAll\<close>), with the job ids the store would assign first, and the same
  store after the test "works: null fields" has set the employees and the logo of
  \<open>c1\<close> to null.
\<close>

definition test_company :: "string \<Rightarrow> string \<Rightarrow> string \<Rightarrow> int option \<Rightarrow> string option \<Rightarrow> company" where
  "test_company h n d e l =
     \<lparr>handle = h, name = n, description = d, numEmployees = e, logoUrl = l\<rparr>"

definition test_job :: "int \<Rightarrow> string \<Rightarrow> int \<Rightarrow> rat \<Rightarrow> string \<Rightarrow> job" where
  "test_job i t s e h =
     \<lparr>job_id = i, title = t, salary = Some s, equity = Some e, companyHandle = h\<rparr>"

definition test_store :: store where
  "test_store =
     \<lparr>companies_table =
        [test_company ''c1'' ''C1'' ''Desc1'' (Some 1) (Some ''http://c1.img''),
         test_company ''c2'' ''C2'' ''Desc2'' (Some 2) (Some ''http://c2.img''),
         test_company ''c3'' ''C3'' ''Desc3'' (Some 3) (Some ''http://c3.img'')],
      jobs_table =
        [test_job 1 ''title-1'' 50000 0 ''c1'',
         test_job 2 ''title-2'' 60000 (1 / 100) ''c1'',
         test_job 3 ''title-3'' 70000 (2 / 100) ''c2'']\<rparr>"

definition test_store_nulls :: store where
  "test_store_nulls =
     \<lparr>companies_table =
        [test_company ''c1'' ''New'' ''New Description'' None None,
         test_company ''c2'' ''C2'' ''Desc2'' (Some 2) (Some ''http://c2.img''),
         test_company ''c3'' ''C3'' ''Desc3'' (Some 3) (Some ''http://c3.img'')],
      jobs_table = jobs_table test_store\<rparr>"

text \<open>Statements other than the three modelled ones, where an evaluation needs none.\<close>

definition no_other :: "store db_query" where
  "no_other stmt params db = (Inl DatabaseError, db)"

section \<open>Helper lemmas\<close>

lemma show_nat_small:
  "show_nat (Suc 0) = ''1''" "show_nat 1 = ''1''" "show_nat 2 = ''2''" "show_nat 3 = ''3''"
  "show_nat (Suc (Suc 0)) = ''2''" "show_nat (Suc (Suc (Suc 0))) = ''3''"
  by (simp_all add: show_nat.simps)

lemma upt_small: "[0..<3] = [0, 1, 2]" "[0..<2] = [0, 1]" "[0..<1] = [0]"
  by (simp_all add: upt_rec)

lemma truthy_default_null [simp]: "truthy (default_null v) = truthy v"
  by (cases v) auto

lemma default_null_truthy: "truthy v \<Longrightarrow> default_null v = v"
  by (cases v) auto

lemma default_null_absent: "\<not> ne_null v \<Longrightarrow> default_null v = Null"
  by (cases v) auto

lemma default_null_present: "ne_null v \<Longrightarrow> default_null v = v"
  by (cases v) auto

text \<open>The falsy values, one by one.\<close>

lemma falsy_iff:
  "\<not> truthy v \<longleftrightarrow>
     v = Undefined \<or> v = Null \<or> v = Bool False \<or> v = Number NaN \<or> v = Number (Fin 0) \<or> v = Str []"
proof (cases v)
  case (Number n)
  then show ?thesis by (cases n) auto
qed auto

lemma min_exceeds_max_absent [simp]:
  "\<not> min_exceeds_max rt Null mx" "\<not> min_exceeds_max rt mn Null"
  by (simp_all add: min_exceeds_max_def)

lemma decimal_runtime_simps [simp]:
  "NumberToString decimal_runtime = decimal_NumberToString"
  "StringToNumber decimal_runtime = decimal_StringToNumber"
  "MemberToString decimal_runtime = decimal_MemberToString"
  by (simp_all add: decimal_runtime_def)

text \<open>
  The decimal form reads back as the number: the store finds in \<open>$k\<close> the index the
  compiler wrote.
\<close>

lemma digit_char:
  assumes "d < 10"
  shows "is_digit (''0123456789'' ! d) \<and> digit_value (''0123456789'' ! d) = d"
proof -
  from assms have "d \<in> {0, 1, 2, 3, 4, 5, 6, 7, 8, 9}" by auto
  then show ?thesis
    by (elim insertE emptyE) (simp_all add: is_digit_def digit_value_def)
qed

lemma read_digits_append:
  "list_all is_digit xs \<Longrightarrow>
   read_digits acc (xs @ ys) = read_digits (fst (read_digits acc xs)) ys"
  by (induction xs arbitrary: acc) auto

lemma read_digits_show_nat_acc:
  "list_all is_digit (show_nat n)
   \<and> read_digits acc (show_nat n) = (acc * 10 ^ length (show_nat n) + n, [])"
proof (induction n arbitrary: acc rule: show_nat.induct)
  case (1 n)
  show ?case
  proof (cases "n < 10")
    case True
    then show ?thesis
      using digit_char [of n] by (simp add: show_nat.simps [of n])
  next
    case False
    with 1 have ih: "list_all is_digit (show_nat (n div 10))"
      "\<And>acc. read_digits acc (show_nat (n div 10)) =
         (acc * 10 ^ length (show_nat (n div 10)) + n div 10, [])"
      by auto
    have d: "is_digit (''0123456789'' ! (n mod 10))"
      "digit_value (''0123456789'' ! (n mod 10)) = n mod 10"
      using digit_char [of "n mod 10"] by auto
    show ?thesis
      using False ih d
      by (simp add: show_nat.simps [of n] read_digits_append algebra_simps)
  qed
qed

lemma read_digits_show_nat: "read_digits 0 (show_nat n) = (n, [])"
  using read_digits_show_nat_acc [of n 0] by simp

section \<open>The partial update compiler\<close>

text \<open>
  Claim C1, as amended. For a non-empty \<open>dataToUpdate\<close> of \<open>N\<close> fields and any override
  mapping, \<open>sqlForPartialUpdate\<close> returns \<open>N\<close> fragments and \<open>N\<close> values; the \<open>i\<close>-th
  fragment, counting from 0 in the order of the fields, is \<open>"col"=$(i+1)\<close>. Where the
  mapping owns a column name for the \<open>i\<close>-th field, \<open>col\<close> is that name if it is not
  empty and the field name if it is. Where the mapping owns none, \<open>col\<close> is the field
  name, provided the field is not named like a member that every object inherits;
  of a field so named the statement says nothing. \<open>setCols\<close> is the fragments joined by
  a comma and a blank, and the values are the input values in the same order.
\<close>

theorem sqlForPartialUpdate_fragments:
  assumes "dataToUpdate \<noteq> []"
  shows \<open>\<exists>cols vals.
           sqlForPartialUpdate rt dataToUpdate jsToSql =
             Inr \<lparr>setCols = join '', '' cols, sql_values = vals\<rparr>
         \<and> length cols = length dataToUpdate
         \<and> length vals = length dataToUpdate
         \<and> (\<forall>i < length dataToUpdate.
               (\<exists>col. cols ! i = ''"'' @ col @ ''"=$'' @ show_nat (i + 1)
                    \<and> (case jsToSql (fst (dataToUpdate ! i)) of
                         Some c \<Rightarrow> col = (if c = [] then fst (dataToUpdate ! i) else c)
                       | None \<Rightarrow>
                           fst (dataToUpdate ! i) \<notin> set Object_prototype_members
                           \<longrightarrow> col = fst (dataToUpdate ! i)))
             \<and> vals ! i = snd (dataToUpdate ! i))\<close>
proof -
  let ?cols = "map (\<lambda>(colName, idx). set_fragment rt jsToSql colName idx)
                   (zip (map fst dataToUpdate) [0..<length dataToUpdate])"
  let ?vals = "map snd dataToUpdate"
  have res: "sqlForPartialUpdate rt dataToUpdate jsToSql =
      Inr \<lparr>setCols = join '', '' ?cols, sql_values = ?vals\<rparr>"
    using assms by (simp add: sqlForPartialUpdate_def Object_keys_def Object_values_def Let_def)
  have len: "length ?cols = length dataToUpdate" "length ?vals = length dataToUpdate"
    by simp_all
  have nth: \<open>(\<exists>col. ?cols ! i = ''"'' @ col @ ''"=$'' @ show_nat (i + 1)
                \<and> (case jsToSql (fst (dataToUpdate ! i)) of
                     Some c \<Rightarrow> col = (if c = [] then fst (dataToUpdate ! i) else c)
                   | None \<Rightarrow>
                       fst (dataToUpdate ! i) \<notin> set Object_prototype_members
                       \<longrightarrow> col = fst (dataToUpdate ! i)))
             \<and> ?vals ! i = snd (dataToUpdate ! i)\<close> if "i < length dataToUpdate" for i
  proof
    have f: \<open>?cols ! i = ''"'' @ sql_column rt jsToSql (fst (dataToUpdate ! i)) @ ''"=$''
             @ show_nat (i + 1)\<close>
      using that by (simp add: set_fragment_def)
    have c: "case jsToSql (fst (dataToUpdate ! i)) of
        Some c \<Rightarrow> sql_column rt jsToSql (fst (dataToUpdate ! i))
                   = (if c = [] then fst (dataToUpdate ! i) else c)
      | None \<Rightarrow> fst (dataToUpdate ! i) \<notin> set Object_prototype_members
                 \<longrightarrow> sql_column rt jsToSql (fst (dataToUpdate ! i)) = fst (dataToUpdate ! i)"
      by (simp add: sql_column_def split: option.splits)
    from f c show \<open>\<exists>col. ?cols ! i = ''"'' @ col @ ''"=$'' @ show_nat (i + 1)
                \<and> (case jsToSql (fst (dataToUpdate ! i)) of
                     Some c \<Rightarrow> col = (if c = [] then fst (dataToUpdate ! i) else c)
                   | None \<Rightarrow>
                       fst (dataToUpdate ! i) \<notin> set Object_prototype_members
                       \<longrightarrow> col = fst (dataToUpdate ! i))\<close>
      by (intro exI [of _ "sql_column rt jsToSql (fst (dataToUpdate ! i))"] conjI)
    show "?vals ! i = snd (dataToUpdate ! i)"
      using that by simp
  qed
  show ?thesis
    by (intro exI [of _ ?cols] exI [of _ ?vals] conjI allI impI res len nth)
qed

text \<open>
  The example of the source's own documentation: \<^verbatim>\<open>{age: 25, isAdmin: true}\<close> with the
  override \<^verbatim>\<open>{isAdmin: "is_admin"}\<close>.
\<close>

theorem sqlForPartialUpdate_fragments_witness:
  \<open>[(''age'', Number (Fin 25)), (''isAdmin'', Bool True)] \<noteq> []
   \<and> ''age'' \<notin> set Object_prototype_members
   \<and> sqlForPartialUpdate decimal_runtime [(''age'', Number (Fin 25)), (''isAdmin'', Bool True)]
        [''isAdmin'' \<mapsto> ''is_admin''] =
      Inr \<lparr>setCols = ''"age"=$1, "is_admin"=$2'',
           sql_values = [Number (Fin 25), Bool True]\<rparr>\<close>
proof -
  let ?d = "[(''age'', Number (Fin 25)), (''isAdmin'', Bool True)]"
  let ?m = "[''isAdmin'' \<mapsto> ''is_admin'']"
  have ne: "?d \<noteq> []" by simp
  have own: "''age'' \<notin> set Object_prototype_members"
    by (simp add: Object_prototype_members_def)
  from sqlForPartialUpdate_fragments [OF ne, of decimal_runtime ?m]
  obtain cols vals where
    res: "sqlForPartialUpdate decimal_runtime ?d ?m =
            Inr \<lparr>setCols = join '', '' cols, sql_values = vals\<rparr>"
    and lc: "length cols = 2" and lv: "length vals = 2"
    and nth: \<open>\<forall>i < 2.
               (\<exists>col. cols ! i = ''"'' @ col @ ''"=$'' @ show_nat (i + 1)
                    \<and> (case ?m (fst (?d ! i)) of
                         Some c \<Rightarrow> col = (if c = [] then fst (?d ! i) else c)
                       | None \<Rightarrow>
                           fst (?d ! i) \<notin> set Object_prototype_members
                           \<longrightarrow> col = fst (?d ! i)))
             \<and> vals ! i = snd (?d ! i)\<close>
    by auto
  from nth [rule_format, of 0] own
  have c0: \<open>cols ! 0 = ''"age"=$1''\<close> and v0: "vals ! 0 = Number (Fin 25)"
    by (auto simp: show_nat_small)
  from nth [rule_format, of 1]
  have c1: \<open>cols ! 1 = ''"is_admin"=$2''\<close> and v1: "vals ! 1 = Bool True"
    by (auto simp: show_nat_small)
  from lc c0 c1 have cols: \<open>cols = [''"age"=$1'', ''"is_admin"=$2'']\<close>
    by (cases cols; cases "tl cols") auto
  from lv v0 v1 have vals: "vals = [Number (Fin 25), Bool True]"
    by (cases vals; cases "tl vals") auto
  show ?thesis using res own by (simp add: cols vals)
qed

text \<open>
  Claim C1 as stated fails where an override is the empty string: the code falls back
  to the field name, the claim asks for the override. It fails as well for a field
  named \<open>constructor\<close> without an override: the code takes the text of the inherited
  member for the column, the claim asks for the field name.
\<close>

theorem sqlForPartialUpdate_empty_override_counterexample:
  \<open>sqlForPartialUpdate decimal_runtime [(''a'', Number (Fin 25))] [''a'' \<mapsto> []] =
     Inr \<lparr>setCols = ''"a"=$1'', sql_values = [Number (Fin 25)]\<rparr>
   \<and> claimed_update_sql [(''a'', Number (Fin 25))] [''a'' \<mapsto> []] =
     \<lparr>setCols = ''""=$1'', sql_values = [Number (Fin 25)]\<rparr>
   \<and> sqlForPartialUpdate decimal_runtime [(''a'', Number (Fin 25))] [''a'' \<mapsto> []] \<noteq>
     Inr (claimed_update_sql [(''a'', Number (Fin 25))] [''a'' \<mapsto> []])
   \<and> sqlForPartialUpdate decimal_runtime [(''constructor'', Number (Fin 1))] Map.empty =
     Inr \<lparr>setCols = ''"function Object() { [native code] }"=$1'',
          sql_values = [Number (Fin 1)]\<rparr>
   \<and> claimed_update_sql [(''constructor'', Number (Fin 1))] Map.empty =
     \<lparr>setCols = ''"constructor"=$1'', sql_values = [Number (Fin 1)]\<rparr>
   \<and> sqlForPartialUpdate decimal_runtime [(''constructor'', Number (Fin 1))] Map.empty \<noteq>
     Inr (claimed_update_sql [(''constructor'', Number (Fin 1))] Map.empty)\<close>
  by (simp add: sqlForPartialUpdate_def claimed_update_sql_def claimed_column_def
      Object_keys_def Object_values_def set_fragment_def sql_column_def show_nat_small
      Object_prototype_members_def decimal_MemberToString_def)

text \<open>
  What the code does for a field that has no override and is named like an inherited
  member, for any runtime.
\<close>

lemma sqlForPartialUpdate_inherited_member:
  \<open>member \<in> set Object_prototype_members \<Longrightarrow>
   sqlForPartialUpdate rt [(member, v)] Map.empty =
     Inr \<lparr>setCols = ''"'' @ MemberToString rt member @ ''"=$1'', sql_values = [v]\<rparr>\<close>
  by (simp add: sqlForPartialUpdate_def Object_keys_def Object_values_def set_fragment_def
      sql_column_def show_nat_small)

text \<open>
  Claim C2. On the empty mapping \<open>sqlForPartialUpdate\<close> fails with the bad-request error
  "No data", whatever the override mapping; it returns no clause and no values.
\<close>

theorem sqlForPartialUpdate_empty:
  "sqlForPartialUpdate rt [] jsToSql = Inl (BadRequestError ''No data'')"
  by (simp add: sqlForPartialUpdate_def Object_keys_def)

section \<open>The filter query compilers\<close>

lemma Company_findAll_build_name_falsy:
  "\<not> truthy v \<Longrightarrow>
   Company_findAll_build rt v mn mx = Company_findAll_build rt Undefined mn mx"
  by (simp add: Company_findAll_build_def Let_def)

lemma Company_findAll_build_min_falsy:
  "\<not> truthy v \<Longrightarrow>
   Company_findAll_build rt n v mx =
     (if min_exceeds_max rt (default_null v) (default_null mx)
      then Inl (BadRequestError (min_exceeds_max_message rt (default_null v) (default_null mx)))
      else Company_findAll_build rt n Undefined mx)"
  by (simp add: Company_findAll_build_def Let_def)

lemma Company_findAll_build_max_falsy:
  "\<not> truthy v \<Longrightarrow>
   Company_findAll_build rt n mn v =
     (if min_exceeds_max rt (default_null mn) (default_null v)
      then Inl (BadRequestError (min_exceeds_max_message rt (default_null mn) (default_null v)))
      else Company_findAll_build rt n mn Undefined)"
  by (simp add: Company_findAll_build_def Let_def)

lemma Job_findAll_build_falsy:
  assumes "\<not> truthy v"
  shows "Job_findAll_build rt v ms he = Job_findAll_build rt Undefined ms he"
    and "Job_findAll_build rt t v he = Job_findAll_build rt t Undefined he"
    and "Job_findAll_build rt t ms v = Job_findAll_build rt t ms Undefined"
  using assms by (simp_all add: Job_findAll_build_def Let_def)

lemma Company_findAll_build_rejects:
  assumes "ne_null mn" "ne_null mx" "js_less rt mx mn"
  shows "Company_findAll_build rt n mn mx =
           Inl (BadRequestError (min_exceeds_max_message rt mn mx))"
  using assms
  by (simp add: Company_findAll_build_def Let_def min_exceeds_max_def default_null_present)

lemma Company_findAll_build_min_only:
  assumes "truthy mn" "\<not> ne_null n" "\<not> ne_null mx"
  shows "Company_findAll_build rt n mn mx = Inr (''WHERE num_employees >= $1 '', [mn])"
  using assms
  by (simp add: Company_findAll_build_def Let_def default_null_absent default_null_truthy
      add_filter_def where_or_and_def show_nat_small)

lemma absent_falsy: "\<not> ne_null v \<Longrightarrow> \<not> truthy v"
  by (cases v) auto

lemma Company_findAll_build_no_filter:
  assumes "\<not> ne_null n" "\<not> truthy mn" "\<not> ne_null mx"
  shows "Company_findAll_build rt n mn mx = Inr ([], [])"
  using assms absent_falsy [of n]
  by (simp add: Company_findAll_build_def Let_def default_null_absent)

lemma parse_company_where_min_only:
  "parse_company_where ''WHERE num_employees >= $1 '' = Some [EmployeesGe 1]"
  by (simp add: parse_company_where_def parse_company_cond_def read_operand_def
      read_placeholder_def is_digit_def digit_value_def)

lemma select_companies_min_only:
  "select_companies rt ilike ''WHERE num_employees >= $1 '' [Number (Fin (of_int n))] db =
     Inr (companies_with_at_least n db)"
  by (simp add: select_companies_def parse_company_where_min_only param_at_def
      companies_with_at_least_def)

lemma select_companies_no_filter:
  "select_companies rt ilike [] [] db =
     Inr (map CompanyRow (sort_key name (companies_table db)))"
  by (simp add: select_companies_def parse_company_where_def)

text \<open>
  Claim C3. Each compiler returns the clause and the argument list that the assembly
  rule gives for its active filters, taken in the declared order (name, minimum,
  maximum for companies; title, minimum salary, equity for jobs): the first active
  filter's text starts with \<open>WHERE\<close>, each later one's with \<open>AND\<close>, a filter's
  placeholder is numbered one more than the count of arguments before it, and the
  arguments stand in the same order. Company.findAll does so when its validation of the
  two bounds lets the call through.
\<close>

theorem filter_compilers_assemble:
  "Company_findAll_build rt nameFilter minEmployees maxEmployees =
     (if min_exceeds_max rt (default_null minEmployees) (default_null maxEmployees)
      then Inl (BadRequestError
                 (min_exceeds_max_message rt (default_null minEmployees)
                    (default_null maxEmployees)))
      else Inr (assembled_clause
                  (active_filters (company_filters rt nameFilter minEmployees maxEmployees)),
                assembled_args
                  (active_filters (company_filters rt nameFilter minEmployees maxEmployees))))
   \<and> Job_findAll_build rt titleFilter minSalary hasEquity =
       (assembled_clause (active_filters (job_filters rt titleFilter minSalary hasEquity)),
        assembled_args (active_filters (job_filters rt titleFilter minSalary hasEquity)))"
proof
  show "Company_findAll_build rt nameFilter minEmployees maxEmployees =
     (if min_exceeds_max rt (default_null minEmployees) (default_null maxEmployees)
      then Inl (BadRequestError
                 (min_exceeds_max_message rt (default_null minEmployees)
                    (default_null maxEmployees)))
      else Inr (assembled_clause
                  (active_filters (company_filters rt nameFilter minEmployees maxEmployees)),
                assembled_args
                  (active_filters (company_filters rt nameFilter minEmployees maxEmployees))))"
    by (cases "truthy nameFilter"; cases "truthy minEmployees"; cases "truthy maxEmployees")
       (simp_all add: Company_findAll_build_def Let_def add_filter_def where_or_and_def
          assembled_clause_def assembled_args_def active_filters_def company_filters_def
          placeholder_number_def List.map_filter_def show_nat_small upt_small
          default_null_truthy)
  show "Job_findAll_build rt titleFilter minSalary hasEquity =
       (assembled_clause (active_filters (job_filters rt titleFilter minSalary hasEquity)),
        assembled_args (active_filters (job_filters rt titleFilter minSalary hasEquity)))"
    by (cases "truthy titleFilter"; cases "truthy minSalary"; cases "truthy hasEquity")
       (simp_all add: Job_findAll_build_def Let_def add_filter_def where_or_and_def
          assembled_clause_def assembled_args_def active_filters_def job_filters_def
          placeholder_number_def List.map_filter_def show_nat_small upt_small
          default_null_truthy)
qed

text \<open>
  The rule at work: all three company filters, two of them, and the job filters with
  the title left out.
\<close>

theorem filter_compilers_assemble_witness:
  "Company_findAll_build decimal_runtime (Str ''net'') (Number (Fin 2)) (Number (Fin 7)) =
     Inr (''WHERE name ILIKE $1 AND num_employees >= $2 AND num_employees <= $3 '',
          [Str ''%net%'', Number (Fin 2), Number (Fin 7)])
   \<and> Company_findAll_build decimal_runtime Null (Number (Fin 2)) (Number (Fin 7)) =
     Inr (''WHERE num_employees >= $1 AND num_employees <= $2 '',
          [Number (Fin 2), Number (Fin 7)])
   \<and> Job_findAll_build decimal_runtime Null (Number (Fin 65000)) (Bool True) =
     (''WHERE salary >= $1 AND equity > 0 '', [Str ''65000''])"
  using
    filter_compilers_assemble [of decimal_runtime "Str ''net''" "Number (Fin 2)" "Number (Fin 7)"
      Null "Number (Fin 65000)" "Bool True"]
    filter_compilers_assemble [of decimal_runtime Null "Number (Fin 2)" "Number (Fin 7)"
      Null Null Null]
  by (simp add: min_exceeds_max_def assembled_clause_def assembled_args_def active_filters_def
      company_filters_def job_filters_def placeholder_number_def List.map_filter_def
      show_nat_small upt_small show_int_def show_nat.simps)

text \<open>
  Claim C4, as amended. A falsy value (\<open>undefined\<close>, \<open>null\<close>, \<open>false\<close>, \<open>NaN\<close>, 0, the
  empty string; see \<open>falsy_iff\<close>) in the place of a filter parameter adds no clause text
  and no argument. For the three parameters of Job.findAll and for the name filter of
  Company.findAll the call then gives what it gives with the parameter absent. For a
  bound of Company.findAll it does so unless the validation of the two bounds rejects
  the pair, which it still does for a falsy bound other than \<open>null\<close>; the call then
  fails with the bad-request error of the validation and sends no query.
\<close>

theorem falsy_filter_value_as_absent:
  assumes "\<not> truthy v"
  shows "Company_findAll rt query db v mn mx = Company_findAll rt query db Undefined mn mx
       \<and> Company_findAll rt query db n v mx =
           (if min_exceeds_max rt (default_null v) (default_null mx)
            then (Inl (BadRequestError
                        (min_exceeds_max_message rt (default_null v) (default_null mx))), db)
            else Company_findAll rt query db n Undefined mx)
       \<and> Company_findAll rt query db n mn v =
           (if min_exceeds_max rt (default_null mn) (default_null v)
            then (Inl (BadRequestError
                        (min_exceeds_max_message rt (default_null mn) (default_null v))), db)
            else Company_findAll rt query db n mn Undefined)
       \<and> Job_findAll rt query db v ms he = Job_findAll rt query db Undefined ms he
       \<and> Job_findAll rt query db t v he = Job_findAll rt query db t Undefined he
       \<and> Job_findAll rt query db t ms v = Job_findAll rt query db t ms Undefined"
proof -
  have a: "Company_findAll rt query db v mn mx = Company_findAll rt query db Undefined mn mx"
    by (simp add: Company_findAll_def Company_findAll_build_name_falsy [OF assms])
  have b: "Company_findAll rt query db n v mx =
           (if min_exceeds_max rt (default_null v) (default_null mx)
            then (Inl (BadRequestError
                        (min_exceeds_max_message rt (default_null v) (default_null mx))), db)
            else Company_findAll rt query db n Undefined mx)"
    by (simp add: Company_findAll_def Company_findAll_build_min_falsy [OF assms])
  have c: "Company_findAll rt query db n mn v =
           (if min_exceeds_max rt (default_null mn) (default_null v)
            then (Inl (BadRequestError
                        (min_exceeds_max_message rt (default_null mn) (default_null v))), db)
            else Company_findAll rt query db n mn Undefined)"
    by (simp add: Company_findAll_def Company_findAll_build_max_falsy [OF assms])
  have d: "Job_findAll rt query db v ms he = Job_findAll rt query db Undefined ms he"
    "Job_findAll rt query db t v he = Job_findAll rt query db t Undefined he"
    "Job_findAll rt query db t ms v = Job_findAll rt query db t ms Undefined"
    by (simp_all add: Job_findAll_def Job_findAll_build_falsy [OF assms])
  from a b c d show ?thesis by (intro conjI)
qed

text \<open>
  On the companies of the tests: a minimum of 0 beside a maximum of 2 gives what the
  maximum alone gives, and an empty title beside a minimum salary sends the query of
  the minimum salary alone.
\<close>

theorem falsy_filter_value_as_absent_witness:
  "\<not> truthy (Number (Fin 0))
   \<and> Company_findAll decimal_runtime (store_query decimal_runtime (\<lambda>text pattern. True) no_other)
       test_store Null (Number (Fin 0)) (Number (Fin 2)) =
     Company_findAll decimal_runtime (store_query decimal_runtime (\<lambda>text pattern. True) no_other)
       test_store Null Undefined (Number (Fin 2))
   \<and> \<not> truthy (Str [])
   \<and> Job_findAll decimal_runtime no_other test_store (Str []) (Number (Fin 65000)) Null =
     Job_findAll decimal_runtime no_other test_store Undefined (Number (Fin 65000)) Null"
proof -
  have z: "\<not> truthy (Number (Fin 0))" and e: "\<not> truthy (Str [])"
    by simp_all
  have nr: "\<not> min_exceeds_max decimal_runtime (Number (Fin 0)) (Number (Fin 2))"
    by (simp add: min_exceeds_max_def)
  from falsy_filter_value_as_absent [OF z, where rt = decimal_runtime and db = test_store
      and n = Null and mx = "Number (Fin 2)"]
  have a: "Company_findAll decimal_runtime (store_query decimal_runtime (\<lambda>text pattern. True) no_other)
       test_store Null (Number (Fin 0)) (Number (Fin 2)) =
     Company_findAll decimal_runtime (store_query decimal_runtime (\<lambda>text pattern. True) no_other)
       test_store Null Undefined (Number (Fin 2))"
    using nr by simp
  from falsy_filter_value_as_absent [OF e, where rt = decimal_runtime and query = no_other
      and db = test_store and ms = "Number (Fin 65000)" and he = Null]
  have b: "Job_findAll decimal_runtime no_other test_store (Str []) (Number (Fin 65000)) Null =
     Job_findAll decimal_runtime no_other test_store Undefined (Number (Fin 65000)) Null"
    by simp
  from z e a b show ?thesis by (intro conjI)
qed

text \<open>
  Claim C4 as stated fails for a bound of Company.findAll: with a minimum of 2, a
  maximum of 0 makes the call fail, while without the maximum it returns the
  companies \<open>c2\<close> and \<open>c3\<close>. And a filter is activated by a value that is
  neither a string nor a number: the boolean \<open>true\<close> activates the equity filter.
\<close>

theorem falsy_bound_counterexample:
  "Job_findAll_build decimal_runtime Null Null (Bool True) = (''WHERE equity > 0 '', [])
   \<and> \<not> truthy (Number (Fin 0))
   \<and> Company_findAll decimal_runtime (store_query decimal_runtime (\<lambda>text pattern. True) no_other)
       test_store Null (Number (Fin 2)) (Number (Fin 0)) =
     (Inl (BadRequestError ''Filter minimum (2) specified is greater than maximum (0)''),
      test_store)
   \<and> Company_findAll decimal_runtime (store_query decimal_runtime (\<lambda>text pattern. True) no_other)
       test_store Null (Number (Fin 2)) Undefined =
     (Inr [CompanyRow (test_company ''c2'' ''C2'' ''Desc2'' (Some 2) (Some ''http://c2.img'')),
           CompanyRow (test_company ''c3'' ''C3'' ''Desc3'' (Some 3) (Some ''http://c3.img''))],
      test_store)
   \<and> Company_findAll decimal_runtime (store_query decimal_runtime (\<lambda>text pattern. True) no_other)
       test_store Null (Number (Fin 2)) (Number (Fin 0)) \<noteq>
     Company_findAll decimal_runtime (store_query decimal_runtime (\<lambda>text pattern. True) no_other)
       test_store Null (Number (Fin 2)) Undefined"
proof -
  have a: "Company_findAll decimal_runtime
             (store_query decimal_runtime (\<lambda>text pattern. True) no_other)
             test_store Null (Number (Fin 2)) (Number (Fin 0)) =
     (Inl (BadRequestError ''Filter minimum (2) specified is greater than maximum (0)''),
      test_store)"
    by (simp add: Company_findAll_def Company_findAll_build_rejects
        min_exceeds_max_message_def show_int_def show_nat.simps)
  have b: "Company_findAll decimal_runtime
             (store_query decimal_runtime (\<lambda>text pattern. True) no_other)
             test_store Null (Number (Fin 2)) Undefined =
     (Inr [CompanyRow (test_company ''c2'' ''C2'' ''Desc2'' (Some 2) (Some ''http://c2.img'')),
           CompanyRow (test_company ''c3'' ''C3'' ''Desc3'' (Some 3) (Some ''http://c3.img''))],
      test_store)"
    using select_companies_min_only [of decimal_runtime "\<lambda>text pattern. True" 2 test_store]
    by (simp add: Company_findAll_def Company_findAll_build_min_only store_query_def
        companies_with_at_least_def test_store_def test_company_def)
  have c: "Job_findAll_build decimal_runtime Null Null (Bool True) = (''WHERE equity > 0 '', [])"
    by (simp add: Job_findAll_build_def where_or_and_def Let_def)
  show ?thesis unfolding a b c by simp
qed

text \<open>
  Claim C5, as amended. Company.findAll fails with a bad-request error, sending no
  query, whenever both bounds are given (not \<open>null\<close>) and the maximum is less than the
  minimum. When only the minimum is given and it is an integer \<open>n\<close> other than 0, the
  call returns exactly the companies whose number of employees is known and at least
  \<open>n\<close>, ordered by name; with \<open>n = 0\<close> no filter is built and the call returns every
  company.
\<close>

theorem Company_findAll_bounds:
  "(ne_null minEmployees \<and> ne_null maxEmployees \<and> js_less rt maxEmployees minEmployees
      \<longrightarrow> Company_findAll rt query db nameFilter minEmployees maxEmployees =
            (Inl (BadRequestError (min_exceeds_max_message rt minEmployees maxEmployees)), db)
          \<and> http_status (BadRequestError (min_exceeds_max_message rt minEmployees maxEmployees))
              = 400)
   \<and> (n \<noteq> 0 \<and> \<not> ne_null absent1 \<and> \<not> ne_null absent2
      \<longrightarrow> Company_findAll rt (store_query rt ilike other) sdb
              absent1 (Number (Fin (of_int n))) absent2 =
            (Inr (companies_with_at_least n sdb), sdb))
   \<and> (\<not> ne_null absent1 \<and> \<not> ne_null absent2
      \<longrightarrow> Company_findAll rt (store_query rt ilike other) sdb
              absent1 (Number (Fin 0)) absent2 =
            (Inr (map CompanyRow (sort_key name (companies_table sdb))), sdb))"
proof (intro conjI impI; elim conjE)
  assume "ne_null minEmployees" "ne_null maxEmployees" "js_less rt maxEmployees minEmployees"
  then show "Company_findAll rt query db nameFilter minEmployees maxEmployees =
      (Inl (BadRequestError (min_exceeds_max_message rt minEmployees maxEmployees)), db)"
    by (simp add: Company_findAll_def Company_findAll_build_rejects)
next
  show "http_status (BadRequestError (min_exceeds_max_message rt minEmployees maxEmployees))
          = 400"
    by simp
next
  assume "n \<noteq> 0" "\<not> ne_null absent1" "\<not> ne_null absent2"
  then show "Company_findAll rt (store_query rt ilike other) sdb
      absent1 (Number (Fin (of_int n))) absent2 = (Inr (companies_with_at_least n sdb), sdb)"
    by (simp add: Company_findAll_def Company_findAll_build_min_only store_query_def
        select_companies_min_only)
next
  assume "\<not> ne_null absent1" "\<not> ne_null absent2"
  then show "Company_findAll rt (store_query rt ilike other) sdb
      absent1 (Number (Fin 0)) absent2 =
      (Inr (map CompanyRow (sort_key name (companies_table sdb))), sdb)"
    by (simp add: Company_findAll_def Company_findAll_build_no_filter store_query_def
        select_companies_no_filter)
qed

text \<open>
  The two examples of the specification: a minimum of 20 with a maximum of 10 fails,
  and a minimum of 2 alone returns the companies \<open>c2\<close> and \<open>c3\<close> of the tests.
\<close>

theorem Company_findAll_bounds_witness:
  "ne_null (Number (Fin 20)) \<and> ne_null (Number (Fin 10))
   \<and> js_less decimal_runtime (Number (Fin 10)) (Number (Fin 20))
   \<and> Company_findAll decimal_runtime no_other test_store Null (Number (Fin 20)) (Number (Fin 10)) =
       (Inl (BadRequestError ''Filter minimum (20) specified is greater than maximum (10)''),
        test_store)
   \<and> (2::int) \<noteq> 0 \<and> \<not> ne_null Null \<and> \<not> ne_null Undefined
   \<and> Company_findAll decimal_runtime (store_query decimal_runtime (\<lambda>text pattern. True) no_other)
       test_store Null (Number (Fin 2)) Undefined =
       (Inr [CompanyRow (test_company ''c2'' ''C2'' ''Desc2'' (Some 2) (Some ''http://c2.img'')),
             CompanyRow (test_company ''c3'' ''C3'' ''Desc3'' (Some 3) (Some ''http://c3.img''))],
        test_store)"
  using
    Company_findAll_bounds [of "Number (Fin 20)" "Number (Fin 10)" decimal_runtime no_other
      test_store Null 2 Null Undefined "\<lambda>text pattern. True" no_other test_store]
  by (simp add: min_exceeds_max_message_def show_int_def show_nat.simps
      companies_with_at_least_def test_store_def test_company_def)

text \<open>
  Claim C5 as stated fails for \<open>n = 0\<close>: in the store of the tests after \<open>c1\<close> has lost
  its number of employees, a minimum of 0 returns \<open>c1\<close> as well, a company that does
  not have at least 0 employees on record.
\<close>

theorem Company_findAll_min_zero_counterexample:
  "Company_findAll decimal_runtime (store_query decimal_runtime (\<lambda>text pattern. True) no_other)
     test_store_nulls Null (Number (Fin 0)) Null =
     (Inr [CompanyRow (test_company ''c2'' ''C2'' ''Desc2'' (Some 2) (Some ''http://c2.img'')),
           CompanyRow (test_company ''c3'' ''C3'' ''Desc3'' (Some 3) (Some ''http://c3.img'')),
           CompanyRow (test_company ''c1'' ''New'' ''New Description'' None None)],
      test_store_nulls)
   \<and> companies_with_at_least 0 test_store_nulls =
       [CompanyRow (test_company ''c2'' ''C2'' ''Desc2'' (Some 2) (Some ''http://c2.img'')),
        CompanyRow (test_company ''c3'' ''C3'' ''Desc3'' (Some 3) (Some ''http://c3.img''))]
   \<and> fst (Company_findAll decimal_runtime
            (store_query decimal_runtime (\<lambda>text pattern. True) no_other)
            test_store_nulls Null (Number (Fin 0)) Null) \<noteq>
       Inr (companies_with_at_least 0 test_store_nulls)"
  by (simp add: Company_findAll_def Company_findAll_build_no_filter store_query_def
      select_companies_no_filter companies_with_at_least_def test_store_nulls_def
      test_company_def)

section \<open>The list routes\<close>

lemma checkCompanyGetQuery_loop_unknown:
  "k \<in> set ks \<Longrightarrow> k \<noteq> ''maxEmployees'' \<Longrightarrow> k \<noteq> ''minEmployees'' \<Longrightarrow> k \<noteq> ''name''
   \<Longrightarrow> checkCompanyGetQuery_loop rt q ks \<noteq> None"
  by (induction ks) auto

lemma checkCompanyGetQuery_loop_not_a_number:
  "k \<in> set ks \<Longrightarrow> k = ''minEmployees'' \<or> k = ''maxEmployees'' \<Longrightarrow> isNaN rt (js_get q k)
   \<Longrightarrow> checkCompanyGetQuery_loop rt q ks \<noteq> None"
  by (induction ks) auto

lemma checkJobGetQuery_loop_unknown:
  "k \<in> set ks \<Longrightarrow> k \<noteq> ''titleFilter'' \<Longrightarrow> k \<noteq> ''minSalary'' \<Longrightarrow> k \<noteq> ''hasEquity''
   \<Longrightarrow> checkJobGetQuery_loop rt q ks \<noteq> None"
  by (induction ks) auto

lemma checkJobGetQuery_loop_not_a_number:
  "''minSalary'' \<in> set ks \<Longrightarrow> isNaN rt (js_get q ''minSalary'')
   \<Longrightarrow> checkJobGetQuery_loop rt q ks \<noteq> None"
  by (induction ks) auto

text \<open>A check that passes has seen only known names, and numbers where it asks for them.\<close>

lemma checkCompanyGetQuery_loop_passes:
  "checkCompanyGetQuery_loop rt q ks = None \<longleftrightarrow>
     list_all (\<lambda>k. k \<in> {''name'', ''minEmployees'', ''maxEmployees''}
                   \<and> (k = ''name'' \<or> \<not> isNaN rt (js_get q k))) ks"
  by (induction ks) auto

lemma checkJobGetQuery_loop_passes:
  "checkJobGetQuery_loop rt q ks = None \<longleftrightarrow>
     list_all (\<lambda>k. k \<in> {''titleFilter'', ''minSalary'', ''hasEquity''}
                   \<and> (k \<noteq> ''minSalary'' \<or> \<not> isNaN rt (js_get q k))) ks"
  by (induction ks) auto

lemma get_companies_rejects:
  "checkCompanyGetQuery rt q \<noteq> None \<Longrightarrow>
   \<exists>msg. get_companies rt query db q = (Inl (BadRequestError msg), db)"
  by (auto simp: get_companies_def)

lemma get_jobs_rejects:
  "checkJobGetQuery rt q \<noteq> None \<Longrightarrow>
   \<exists>msg. get_jobs rt query db q = (Inl (BadRequestError msg), db)"
  by (auto simp: get_jobs_def)

text \<open>
  Claim C9, as amended. Whatever the store and the way it answers queries, a list
  route given a query object with a name outside the filters of its resource ends in a
  bad-request error, of status 400, and leaves the store as it was: no query is sent,
  so findAll is not reached. The same holds for the company route when \<open>minEmployees\<close>
  or \<open>maxEmployees\<close> is there with a value of which \<open>isNaN\<close> is true, and for the job
  route when \<open>minSalary\<close> is. A query object with known names only, and with values of
  which \<open>isNaN\<close> is false where a number is asked for, is let through to findAll. The
  empty string is such a value in every runtime that converts it to 0, as ECMAScript
  lays down: \<open>minEmployees\<close> or \<open>minSalary\<close> with no text after the equals sign is
  not rejected, and the query sent is the one without a filter.
\<close>

theorem list_routes_reject_bad_query:
  "(k \<in> set (Object_keys q) \<and> k \<notin> {''name'', ''minEmployees'', ''maxEmployees''}
      \<longrightarrow> (\<exists>msg. get_companies rt query db q = (Inl (BadRequestError msg), db)
                  \<and> http_status (BadRequestError msg) = 400))
 \<and> (k \<in> set (Object_keys q) \<and> k \<in> {''minEmployees'', ''maxEmployees''}
        \<and> isNaN rt (js_get q k)
      \<longrightarrow> (\<exists>msg. get_companies rt query db q = (Inl (BadRequestError msg), db)
                  \<and> http_status (BadRequestError msg) = 400))
 \<and> (k \<in> set (Object_keys q) \<and> k \<notin> {''titleFilter'', ''minSalary'', ''hasEquity''}
      \<longrightarrow> (\<exists>msg. get_jobs rt query db q = (Inl (BadRequestError msg), db)
                  \<and> http_status (BadRequestError msg) = 400))
 \<and> (''minSalary'' \<in> set (Object_keys q) \<and> isNaN rt (js_get q ''minSalary'')
      \<longrightarrow> (\<exists>msg. get_jobs rt query db q = (Inl (BadRequestError msg), db)
                  \<and> http_status (BadRequestError msg) = 400))
 \<and> (list_all (\<lambda>k. k \<in> {''name'', ''minEmployees'', ''maxEmployees''}
                    \<and> (k = ''name'' \<or> \<not> isNaN rt (js_get q k))) (Object_keys q)
      \<longrightarrow> get_companies rt query db q =
            Company_findAll rt query db (js_get q ''name'')
              (Number (ToNumber rt (js_get q ''minEmployees'')))
              (Number (ToNumber rt (js_get q ''maxEmployees''))))
 \<and> (list_all (\<lambda>k. k \<in> {''titleFilter'', ''minSalary'', ''hasEquity''}
                    \<and> (k \<noteq> ''minSalary'' \<or> \<not> isNaN rt (js_get q k))) (Object_keys q)
      \<longrightarrow> get_jobs rt query db q =
            Job_findAll rt query db (js_get q ''titleFilter'') (js_get q ''minSalary'')
              (js_get q ''hasEquity''))
 \<and> (StringToNumber rt [] = Fin 0
      \<longrightarrow> get_companies rt query db [(''minEmployees'', Str [])] =
            query (SelectCompanies []) [] db
          \<and> get_jobs rt query db [(''minSalary'', Str [])] = query (SelectJobs []) [] db)"
proof -
  have a: "\<exists>msg. get_companies rt query db q = (Inl (BadRequestError msg), db)
                  \<and> http_status (BadRequestError msg) = 400"
    if "k \<in> set (Object_keys q)" "k \<notin> {''name'', ''minEmployees'', ''maxEmployees''}"
    using get_companies_rejects [of rt q query db]
      checkCompanyGetQuery_loop_unknown [of k "Object_keys q" rt q] that
    by (auto simp: checkCompanyGetQuery_def)
  have b: "\<exists>msg. get_companies rt query db q = (Inl (BadRequestError msg), db)
                  \<and> http_status (BadRequestError msg) = 400"
    if "k \<in> set (Object_keys q)" "k \<in> {''minEmployees'', ''maxEmployees''}"
      "isNaN rt (js_get q k)"
    using get_companies_rejects [of rt q query db]
      checkCompanyGetQuery_loop_not_a_number [of k "Object_keys q" rt q] that
    by (auto simp: checkCompanyGetQuery_def)
  have c: "\<exists>msg. get_jobs rt query db q = (Inl (BadRequestError msg), db)
                  \<and> http_status (BadRequestError msg) = 400"
    if "k \<in> set (Object_keys q)" "k \<notin> {''titleFilter'', ''minSalary'', ''hasEquity''}"
    using get_jobs_rejects [of rt q query db]
      checkJobGetQuery_loop_unknown [of k "Object_keys q" rt q] that
    by (auto simp: checkJobGetQuery_def)
  have d: "\<exists>msg. get_jobs rt query db q = (Inl (BadRequestError msg), db)
                  \<and> http_status (BadRequestError msg) = 400"
    if "''minSalary'' \<in> set (Object_keys q)" "isNaN rt (js_get q ''minSalary'')"
    using get_jobs_rejects [of rt q query db]
      checkJobGetQuery_loop_not_a_number [of "Object_keys q" rt q] that
    by (auto simp: checkJobGetQuery_def)
  have e: "get_companies rt query db q =
            Company_findAll rt query db (js_get q ''name'')
              (Number (ToNumber rt (js_get q ''minEmployees'')))
              (Number (ToNumber rt (js_get q ''maxEmployees'')))"
    if "list_all (\<lambda>k. k \<in> {''name'', ''minEmployees'', ''maxEmployees''}
                    \<and> (k = ''name'' \<or> \<not> isNaN rt (js_get q k))) (Object_keys q)"
  proof -
    from that have "checkCompanyGetQuery rt q = None"
      by (simp only: checkCompanyGetQuery_def checkCompanyGetQuery_loop_passes)
    then show ?thesis by (simp add: get_companies_def)
  qed
  have f: "get_jobs rt query db q =
            Job_findAll rt query db (js_get q ''titleFilter'') (js_get q ''minSalary'')
              (js_get q ''hasEquity'')"
    if "list_all (\<lambda>k. k \<in> {''titleFilter'', ''minSalary'', ''hasEquity''}
                    \<and> (k \<noteq> ''minSalary'' \<or> \<not> isNaN rt (js_get q k))) (Object_keys q)"
  proof -
    from that have "checkJobGetQuery rt q = None"
      by (simp only: checkJobGetQuery_def checkJobGetQuery_loop_passes)
    then show ?thesis by (simp add: get_jobs_def)
  qed
  have g: "get_companies rt query db [(''minEmployees'', Str [])] =
            query (SelectCompanies []) [] db"
    if "StringToNumber rt [] = Fin 0"
    using that
    by (simp add: get_companies_def checkCompanyGetQuery_def Object_keys_def js_get_def
        isNaN_def Company_findAll_def Company_findAll_build_def min_exceeds_max_def Let_def)
  have h: "get_jobs rt query db [(''minSalary'', Str [])] = query (SelectJobs []) [] db"
    if "StringToNumber rt [] = Fin 0"
    using that
    by (simp add: get_jobs_def checkJobGetQuery_def Object_keys_def js_get_def isNaN_def
        Job_findAll_def Job_findAll_build_def Let_def)
  show ?thesis
    by (intro conjI impI; (elim conjE)?) (rule a b c d e f g h; assumption)+
qed

text \<open>
  The example of the specification, \<^verbatim>\<open>GET /jobs?apples=6\<close>; a company query whose
  minimum is not a number; one whose minimum is the number 2, which is let through and
  answered with the companies \<open>c2\<close> and \<open>c3\<close> of the tests; and one whose minimum is
  empty.
\<close>

theorem list_routes_reject_bad_query_witness:
  "''apples'' \<in> set (Object_keys [(''apples'', Str ''6'')])
   \<and> ''apples'' \<notin> {''titleFilter'', ''minSalary'', ''hasEquity''}
   \<and> get_jobs decimal_runtime no_other test_store [(''apples'', Str ''6'')] =
       (Inl (BadRequestError ''bad query: apples''), test_store)
   \<and> http_status (BadRequestError ''bad query: apples'') = 400
   \<and> ''minEmployees'' \<in> set (Object_keys [(''name'', Str ''c''), (''minEmployees'', Str ''two'')])
   \<and> isNaN decimal_runtime
        (js_get [(''name'', Str ''c''), (''minEmployees'', Str ''two'')] ''minEmployees'')
   \<and> get_companies decimal_runtime no_other test_store
        [(''name'', Str ''c''), (''minEmployees'', Str ''two'')] =
       (Inl (BadRequestError ''minEmployees (two) must be a number''), test_store)
   \<and> list_all (\<lambda>k. k \<in> {''name'', ''minEmployees'', ''maxEmployees''}
                   \<and> (k = ''name''
                        \<or> \<not> isNaN decimal_runtime (js_get [(''minEmployees'', Str ''2'')] k)))
        (Object_keys [(''minEmployees'', Str ''2'')])
   \<and> get_companies decimal_runtime
        (store_query decimal_runtime (\<lambda>text pattern. True) no_other) test_store
        [(''minEmployees'', Str ''2'')] =
       (Inr [CompanyRow (test_company ''c2'' ''C2'' ''Desc2'' (Some 2) (Some ''http://c2.img'')),
             CompanyRow (test_company ''c3'' ''C3'' ''Desc3'' (Some 3) (Some ''http://c3.img''))],
        test_store)
   \<and> StringToNumber decimal_runtime [] = Fin 0
   \<and> get_companies decimal_runtime
        (store_query decimal_runtime (\<lambda>text pattern. True) no_other) test_store
        [(''minEmployees'', Str [])] =
       (Inr [CompanyRow (test_company ''c1'' ''C1'' ''Desc1'' (Some 1) (Some ''http://c1.img'')),
             CompanyRow (test_company ''c2'' ''C2'' ''Desc2'' (Some 2) (Some ''http://c2.img'')),
             CompanyRow (test_company ''c3'' ''C3'' ''Desc3'' (Some 3) (Some ''http://c3.img''))],
        test_store)"
proof -
  let ?sq = "store_query decimal_runtime (\<lambda>text pattern. True) no_other"
  have k1: "''apples'' \<in> set (Object_keys [(''apples'', Str ''6'')])"
    and k2: "''apples'' \<notin> {''titleFilter'', ''minSalary'', ''hasEquity''}"
    by (simp_all add: Object_keys_def)
  have k3: "''minEmployees''
      \<in> set (Object_keys [(''name'', Str ''c''), (''minEmployees'', Str ''two'')])"
    by (simp add: Object_keys_def)
  have k4: "isNaN decimal_runtime
      (js_get [(''name'', Str ''c''), (''minEmployees'', Str ''two'')] ''minEmployees'')"
    by (simp add: isNaN_def js_get_def decimal_StringToNumber_def is_digit_def trim_def
        is_blank_def)
  have "\<exists>msg. get_jobs decimal_runtime no_other test_store [(''apples'', Str ''6'')] =
            (Inl (BadRequestError msg), test_store)
          \<and> http_status (BadRequestError msg) = 400"
    by (rule list_routes_reject_bad_query
          [where k = "''apples''" and q = "[(''apples'', Str ''6'')]"
             and rt = decimal_runtime and query = no_other and db = test_store,
           THEN conjunct2, THEN conjunct2, THEN conjunct1, THEN mp])
       (intro conjI k1 k2)
  then obtain m1 where
    j: "get_jobs decimal_runtime no_other test_store [(''apples'', Str ''6'')] =
          (Inl (BadRequestError m1), test_store)"
    and s: "http_status (BadRequestError m1) = 400"
    by (elim exE conjE)
  from j have m1: "m1 = ''bad query: apples''"
    by (simp add: get_jobs_def checkJobGetQuery_def Object_keys_def)
  have k5: "''minEmployees'' \<in> {''minEmployees'', ''maxEmployees''}"
    by simp
  have "\<exists>msg. get_companies decimal_runtime no_other test_store
            [(''name'', Str ''c''), (''minEmployees'', Str ''two'')] =
            (Inl (BadRequestError msg), test_store)
          \<and> http_status (BadRequestError msg) = 400"
    by (rule list_routes_reject_bad_query
          [where k = "''minEmployees''"
             and q = "[(''name'', Str ''c''), (''minEmployees'', Str ''two'')]"
             and rt = decimal_runtime and query = no_other and db = test_store,
           THEN conjunct2, THEN conjunct1, THEN mp])
       (intro conjI k3 k4 k5)
  then obtain m2 where
    c: "get_companies decimal_runtime no_other test_store
          [(''name'', Str ''c''), (''minEmployees'', Str ''two'')] =
          (Inl (BadRequestError m2), test_store)"
    by (elim exE conjE)
  from c have m2: "m2 = ''minEmployees (two) must be a number''"
    by (simp add: get_companies_def checkCompanyGetQuery_def Object_keys_def isNaN_def
        js_get_def decimal_StringToNumber_def is_digit_def trim_def is_blank_def)
  have two: "decimal_StringToNumber ''2'' = Fin 2"
    by (simp add: decimal_StringToNumber_def is_digit_def trim_def is_blank_def digit_value_def)
  have k6: "list_all (\<lambda>k. k \<in> {''name'', ''minEmployees'', ''maxEmployees''}
                   \<and> (k = ''name''
                        \<or> \<not> isNaN decimal_runtime (js_get [(''minEmployees'', Str ''2'')] k)))
        (Object_keys [(''minEmployees'', Str ''2'')])"
    by (simp add: Object_keys_def isNaN_def js_get_def two)
  have "get_companies decimal_runtime ?sq test_store [(''minEmployees'', Str ''2'')] =
      Company_findAll decimal_runtime ?sq test_store
        (js_get [(''minEmployees'', Str ''2'')] ''name'')
        (Number (ToNumber decimal_runtime (js_get [(''minEmployees'', Str ''2'')] ''minEmployees'')))
        (Number (ToNumber decimal_runtime (js_get [(''minEmployees'', Str ''2'')] ''maxEmployees'')))"
    by (rule list_routes_reject_bad_query
          [where q = "[(''minEmployees'', Str ''2'')]" and rt = decimal_runtime
             and query = ?sq and db = test_store,
           THEN conjunct2, THEN conjunct2, THEN conjunct2, THEN conjunct2, THEN conjunct1,
           THEN mp])
       (rule k6)
  then have p: "get_companies decimal_runtime ?sq test_store [(''minEmployees'', Str ''2'')] =
       (Inr [CompanyRow (test_company ''c2'' ''C2'' ''Desc2'' (Some 2) (Some ''http://c2.img'')),
             CompanyRow (test_company ''c3'' ''C3'' ''Desc3'' (Some 3) (Some ''http://c3.img''))],
        test_store)"
    using select_companies_min_only [of decimal_runtime "\<lambda>text pattern. True" 2 test_store]
    by (simp add: js_get_def two Company_findAll_def Company_findAll_build_def
        min_exceeds_max_def Let_def add_filter_def where_or_and_def show_nat_small
        store_query_def companies_with_at_least_def test_store_def test_company_def)
  have z: "StringToNumber decimal_runtime [] = Fin 0"
    by (simp add: decimal_StringToNumber_def trim_def)
  have "get_companies decimal_runtime ?sq test_store [(''minEmployees'', Str [])] =
      ?sq (SelectCompanies []) [] test_store"
    by (rule list_routes_reject_bad_query
          [where rt = decimal_runtime and query = ?sq and db = test_store,
           THEN conjunct2, THEN conjunct2, THEN conjunct2, THEN conjunct2, THEN conjunct2,
           THEN conjunct2, THEN mp, THEN conjunct1])
       (rule z)
  then have e: "get_companies decimal_runtime ?sq test_store [(''minEmployees'', Str [])] =
       (Inr [CompanyRow (test_company ''c1'' ''C1'' ''Desc1'' (Some 1) (Some ''http://c1.img'')),
             CompanyRow (test_company ''c2'' ''C2'' ''Desc2'' (Some 2) (Some ''http://c2.img'')),
             CompanyRow (test_company ''c3'' ''C3'' ''Desc3'' (Some 3) (Some ''http://c3.img''))],
        test_store)"
    by (simp add: store_query_def select_companies_no_filter test_store_def test_company_def)
  from k1 k2 k3 k4 j s c k6 p z e show ?thesis
    unfolding m1 m2 by (intro conjI)
qed

text \<open>
  Claim C9 as stated fails for a value that is not a number and of which \<open>isNaN\<close> is
  false all the same: the query \<^verbatim>\<open>minEmployees=\<close>, whose value is the empty string, is
  not rejected, and neither is a maximum that is one blank; both are answered with
  every company of the tests.
\<close>

theorem list_routes_empty_number_counterexample:
  "\<not> isNaN decimal_runtime (Str [])
   \<and> get_companies decimal_runtime
        (store_query decimal_runtime (\<lambda>text pattern. True) no_other) test_store
        [(''minEmployees'', Str [])] =
       (Inr [CompanyRow (test_company ''c1'' ''C1'' ''Desc1'' (Some 1) (Some ''http://c1.img'')),
             CompanyRow (test_company ''c2'' ''C2'' ''Desc2'' (Some 2) (Some ''http://c2.img'')),
             CompanyRow (test_company ''c3'' ''C3'' ''Desc3'' (Some 3) (Some ''http://c3.img''))],
        test_store)
   \<and> \<not> isNaN decimal_runtime (Str '' '')
   \<and> get_companies decimal_runtime
        (store_query decimal_runtime (\<lambda>text pattern. True) no_other) test_store
        [(''maxEmployees'', Str '' '')] =
       (Inr [CompanyRow (test_company ''c1'' ''C1'' ''Desc1'' (Some 1) (Some ''http://c1.img'')),
             CompanyRow (test_company ''c2'' ''C2'' ''Desc2'' (Some 2) (Some ''http://c2.img'')),
             CompanyRow (test_company ''c3'' ''C3'' ''Desc3'' (Some 3) (Some ''http://c3.img''))],
        test_store)"
proof -
  have e: "decimal_StringToNumber [] = Fin 0" and b: "decimal_StringToNumber '' '' = Fin 0"
    by (simp_all add: decimal_StringToNumber_def trim_def is_blank_def)
  show ?thesis
    by (simp add: isNaN_def e b get_companies_def checkCompanyGetQuery_def Object_keys_def
        js_get_def Company_findAll_def Company_findAll_build_def min_exceeds_max_def Let_def
        store_query_def select_companies_no_filter test_store_def test_company_def)
qed

text \<open>
  Claim C6, at the input where the code departs from it: the job route passes the text
  of the query string on, and the text \<open>false\<close> is a non-empty string, hence truthy. The
  query \<^verbatim>\<open>hasEquity=false\<close> therefore sends the same statement as \<^verbatim>\<open>hasEquity=true\<close>,
  the one restricted to positive equity, while Job.findAll itself, given the boolean
  \<open>false\<close> or nothing, sends the unrestricted one.
\<close>

theorem get_jobs_hasEquity_false_restricts:
  "get_jobs rt query db [(''hasEquity'', Str ''false'')] =
     query (SelectJobs ''WHERE equity > 0 '') [] db
   \<and> get_jobs rt query db [(''hasEquity'', Str ''true'')] =
     query (SelectJobs ''WHERE equity > 0 '') [] db
   \<and> Job_findAll rt query db Undefined Undefined (Bool True) =
     query (SelectJobs ''WHERE equity > 0 '') [] db
   \<and> Job_findAll rt query db Undefined Undefined (Bool False) = query (SelectJobs []) [] db
   \<and> Job_findAll rt query db Undefined Undefined Undefined = query (SelectJobs []) [] db
   \<and> get_jobs rt query db [] = query (SelectJobs []) [] db"
  by (simp add: get_jobs_def checkJobGetQuery_def Object_keys_def js_get_def Job_findAll_def
      Job_findAll_build_def where_or_and_def Let_def)

section \<open>Company.get and Job.update\<close>

text \<open>Company.get for any store: what it makes of the answers to its two queries.\<close>

lemma Company_get_not_found:
  "query SelectCompanyByHandle [h] db = (Inr [], db1) \<Longrightarrow>
   Company_get rt query db h = (Inl (NotFoundError (''No company: '' @ ToString rt h)), db1)"
  by (simp add: Company_get_def)

lemma Company_get_found:
  "query SelectCompanyByHandle [h] db = (Inr (c # cs), db1) \<Longrightarrow>
   query SelectJobsOfCompany [h] db1 = (Inr js, db2) \<Longrightarrow>
   Company_get rt query db h = (Inr \<lparr>company_row = c, jobs = js\<rparr>, db2)"
  by (simp add: Company_get_def)

lemma Company_get_store:
  "Company_get rt (store_query rt ilike other) db (Str h) =
     (case filter (\<lambda>c. handle c = h) (companies_table db) of
        [] \<Rightarrow> (Inl (NotFoundError (''No company: '' @ h)), db)
      | c # _ \<Rightarrow>
          (Inr \<lparr>company_row = CompanyRow c,
                jobs = map (\<lambda>j. JobSummaryRow (job_summary.truncate j))
                         (sort_key job_id
                            (filter (\<lambda>j. companyHandle j = h) (jobs_table db)))\<rparr>, db))"
  by (simp add: Company_get_def store_query_def select_company_by_handle_def
      select_jobs_of_company_def split: list.splits)

lemma job_id_truncate [simp]: "job_id (job_summary.truncate j) = job_id j"
  by (simp add: job_summary.truncate_def)

text \<open>
  Claim C8. In the store, Company.get of a handle that no company has fails with the
  not-found error, of status 404. Of a handle that a company has, it returns a company
  with that handle together with the list \<open>jobs\<close> of the summaries (id, title, salary,
  equity) of the jobs whose company handle it is, in ascending order of id; when no job
  has the handle, \<open>jobs\<close> is the empty list and the call still succeeds. The store is
  left as it was.
\<close>

theorem Company_get_found_or_not:
  "((\<forall>c \<in> set (companies_table db). handle c \<noteq> h)
      \<longrightarrow> Company_get rt (store_query rt ilike other) db (Str h) =
            (Inl (NotFoundError (''No company: '' @ h)), db)
          \<and> http_status (NotFoundError (''No company: '' @ h)) = 404)
   \<and> ((\<exists>c \<in> set (companies_table db). handle c = h)
      \<longrightarrow> (\<exists>c js.
             Company_get rt (store_query rt ilike other) db (Str h) =
               (Inr \<lparr>company_row = CompanyRow c, jobs = map JobSummaryRow js\<rparr>, db)
           \<and> c \<in> set (companies_table db) \<and> handle c = h
           \<and> js = map job_summary.truncate
                    (sort_key job_id (filter (\<lambda>j. companyHandle j = h) (jobs_table db)))
           \<and> sorted (map job_id js)
           \<and> length js = length (filter (\<lambda>j. companyHandle j = h) (jobs_table db))
           \<and> ((\<forall>j \<in> set (jobs_table db). companyHandle j \<noteq> h) \<longrightarrow> js = [])))"
proof (intro conjI impI)
  assume none: "\<forall>c \<in> set (companies_table db). handle c \<noteq> h"
  then have "filter (\<lambda>c. handle c = h) (companies_table db) = []"
    by (simp add: filter_empty_conv)
  then show "Company_get rt (store_query rt ilike other) db (Str h) =
      (Inl (NotFoundError (''No company: '' @ h)), db)"
    by (simp add: Company_get_store)
next
  show "http_status (NotFoundError (''No company: '' @ h)) = 404" by simp
next
  assume "\<exists>c \<in> set (companies_table db). handle c = h"
  then have "filter (\<lambda>c. handle c = h) (companies_table db) \<noteq> []"
    by (simp add: filter_empty_conv)
  then obtain c cs where f: "filter (\<lambda>c. handle c = h) (companies_table db) = c # cs"
    by (cases "filter (\<lambda>c. handle c = h) (companies_table db)") auto
  then have "c \<in> set (filter (\<lambda>c. handle c = h) (companies_table db))" by simp
  then have c: "c \<in> set (companies_table db)" "handle c = h" by simp_all
  let ?js = "map job_summary.truncate
               (sort_key job_id (filter (\<lambda>j. companyHandle j = h) (jobs_table db)))"
  have r: "Company_get rt (store_query rt ilike other) db (Str h) =
      (Inr \<lparr>company_row = CompanyRow c, jobs = map JobSummaryRow ?js\<rparr>, db)"
    by (simp add: Company_get_store f comp_def)
  have s: "sorted (map job_id ?js)"
    by (simp add: comp_def)
  have l: "length ?js = length (filter (\<lambda>j. companyHandle j = h) (jobs_table db))"
    by simp
  have e: "?js = []" if "\<forall>j \<in> set (jobs_table db). companyHandle j \<noteq> h"
  proof -
    from that have "filter (\<lambda>j. companyHandle j = h) (jobs_table db) = []"
      by (simp add: filter_empty_conv)
    then show ?thesis by simp
  qed
  from r c s l e show "\<exists>c js.
      Company_get rt (store_query rt ilike other) db (Str h) =
        (Inr \<lparr>company_row = CompanyRow c, jobs = map JobSummaryRow js\<rparr>, db)
      \<and> c \<in> set (companies_table db) \<and> handle c = h
      \<and> js = map job_summary.truncate
               (sort_key job_id (filter (\<lambda>j. companyHandle j = h) (jobs_table db)))
      \<and> sorted (map job_id js)
      \<and> length js = length (filter (\<lambda>j. companyHandle j = h) (jobs_table db))
      \<and> ((\<forall>j \<in> set (jobs_table db). companyHandle j \<noteq> h) \<longrightarrow> js = [])"
    by blast
qed

text \<open>
  On the store of the tests: no company is called \<open>nope\<close>; \<open>c3\<close> has no job and comes
  with the empty list; \<open>c1\<close> comes with its two jobs.
\<close>

theorem Company_get_found_or_not_witness:
  "list_all (\<lambda>c. handle c \<noteq> ''nope'') (companies_table test_store)
   \<and> Company_get decimal_runtime (store_query decimal_runtime (\<lambda>text pattern. True) no_other)
       test_store (Str ''nope'') =
     (Inl (NotFoundError ''No company: nope''), test_store)
   \<and> list_ex (\<lambda>c. handle c = ''c3'') (companies_table test_store)
   \<and> list_all (\<lambda>j. companyHandle j \<noteq> ''c3'') (jobs_table test_store)
   \<and> Company_get decimal_runtime (store_query decimal_runtime (\<lambda>text pattern. True) no_other)
       test_store (Str ''c3'') =
     (Inr \<lparr>company_row =
             CompanyRow (test_company ''c3'' ''C3'' ''Desc3'' (Some 3) (Some ''http://c3.img'')),
           jobs = []\<rparr>, test_store)
   \<and> Company_get decimal_runtime (store_query decimal_runtime (\<lambda>text pattern. True) no_other)
       test_store (Str ''c1'') =
     (Inr \<lparr>company_row =
             CompanyRow (test_company ''c1'' ''C1'' ''Desc1'' (Some 1) (Some ''http://c1.img'')),
           jobs =
             [JobSummaryRow
                \<lparr>job_id = 1, title = ''title-1'', salary = Some 50000, equity = Some 0\<rparr>,
              JobSummaryRow
                \<lparr>job_id = 2, title = ''title-2'', salary = Some 60000,
                 equity = Some (1 / 100)\<rparr>]\<rparr>,
      test_store)"
proof -
  let ?q = "store_query decimal_runtime (\<lambda>text pattern. True) no_other"
  have n: "\<forall>c \<in> set (companies_table test_store). handle c \<noteq> ''nope''"
    by (simp add: test_store_def test_company_def)
  have c3: "\<exists>c \<in> set (companies_table test_store). handle c = ''c3''"
    by (simp add: test_store_def test_company_def)
  have j3: "\<forall>j \<in> set (jobs_table test_store). companyHandle j \<noteq> ''c3''"
    by (simp add: test_store_def test_job_def)
  have c1: "\<exists>c \<in> set (companies_table test_store). handle c = ''c1''"
    by (simp add: test_store_def test_company_def)
  from Company_get_found_or_not [where db = test_store and h = "''nope''"
      and rt = decimal_runtime and ilike = "\<lambda>text pattern. True" and other = no_other] n
  have a: "Company_get decimal_runtime ?q test_store (Str ''nope'') =
      (Inl (NotFoundError ''No company: nope''), test_store)"
    by simp
  from Company_get_found_or_not [where db = test_store and h = "''c3''"
      and rt = decimal_runtime and ilike = "\<lambda>text pattern. True" and other = no_other] c3 j3
  obtain c where
    r3: "Company_get decimal_runtime ?q test_store (Str ''c3'') =
          (Inr \<lparr>company_row = CompanyRow c, jobs = []\<rparr>, test_store)"
    and m3: "c \<in> set (companies_table test_store)" and h3: "handle c = ''c3''"
    by auto
  from m3 h3 have "c = test_company ''c3'' ''C3'' ''Desc3'' (Some 3) (Some ''http://c3.img'')"
    by (auto simp: test_store_def test_company_def)
  with r3 have b: "Company_get decimal_runtime ?q test_store (Str ''c3'') =
      (Inr \<lparr>company_row =
              CompanyRow (test_company ''c3'' ''C3'' ''Desc3'' (Some 3) (Some ''http://c3.img'')),
            jobs = []\<rparr>, test_store)"
    by simp
  from Company_get_found_or_not [where db = test_store and h = "''c1''"
      and rt = decimal_runtime and ilike = "\<lambda>text pattern. True" and other = no_other] c1
  obtain c' js where
    r1: "Company_get decimal_runtime ?q test_store (Str ''c1'') =
          (Inr \<lparr>company_row = CompanyRow c', jobs = map JobSummaryRow js\<rparr>, test_store)"
    and m1: "c' \<in> set (companies_table test_store)" and h1: "handle c' = ''c1''"
    and js: "js = map job_summary.truncate
               (sort_key job_id (filter (\<lambda>j. companyHandle j = ''c1'') (jobs_table test_store)))"
    by auto
  from m1 h1 have c': "c' = test_company ''c1'' ''C1'' ''Desc1'' (Some 1) (Some ''http://c1.img'')"
    by (auto simp: test_store_def test_company_def)
  from js have js': "js =
      [\<lparr>job_id = 1, title = ''title-1'', salary = Some 50000, equity = Some 0\<rparr>,
       \<lparr>job_id = 2, title = ''title-2'', salary = Some 60000, equity = Some (1 / 100)\<rparr>]"
    by (simp add: test_store_def test_job_def job_summary.truncate_def)
  from r1 have d: "Company_get decimal_runtime ?q test_store (Str ''c1'') =
     (Inr \<lparr>company_row =
             CompanyRow (test_company ''c1'' ''C1'' ''Desc1'' (Some 1) (Some ''http://c1.img'')),
           jobs =
             [JobSummaryRow
                \<lparr>job_id = 1, title = ''title-1'', salary = Some 50000, equity = Some 0\<rparr>,
              JobSummaryRow
                \<lparr>job_id = 2, title = ''title-2'', salary = Some 60000,
                 equity = Some (1 / 100)\<rparr>]\<rparr>,
      test_store)"
    by (simp add: c' js')
  have l1: "list_all (\<lambda>c. handle c \<noteq> ''nope'') (companies_table test_store)"
    using n by (simp add: list_all_iff)
  have l2: "list_ex (\<lambda>c. handle c = ''c3'') (companies_table test_store)"
    using c3 by (simp add: list_ex_iff)
  have l3: "list_all (\<lambda>j. companyHandle j \<noteq> ''c3'') (jobs_table test_store)"
    using j3 by (simp add: list_all_iff)
  from l1 a l2 l3 b d show ?thesis by (intro conjI)
qed

text \<open>
  Claim C7, at the input where the code departs from it: Job.update removes the
  property \<open>companyHandle\<close> from its copy of the payload and nothing else, so a payload
  that names the column itself, \<^verbatim>\<open>{company_handle: "c2"}\<close>, goes through the compiler
  and the statement sent to the store assigns the column \<open>company_handle\<close>.
\<close>

theorem Job_update_assigns_company_handle_column:
  \<open>Job_update_build rt jobId [(''company_handle'', Str ''c2'')] =
     Inr (UpdateJobs ''"company_handle"=$1'' ''$2'', [Str ''c2'', jobId])
   \<and> Job_update rt query db jobId [(''company_handle'', Str ''c2'')] =
     (case query (UpdateJobs ''"company_handle"=$1'' ''$2'') [Str ''c2'', jobId] db of
        (Inl e, db1) \<Rightarrow> (Inl e, db1)
      | (Inr [], db1) \<Rightarrow> (Inl (NotFoundError (''No job: '' @ ToString rt jobId)), db1)
      | (Inr (job # rest), db1) \<Rightarrow> (Inr job, db1))\<close>
  by (simp add: Job_update_def Job_update_build_def js_delete_def sqlForPartialUpdate_def
      Object_keys_def Object_values_def set_fragment_def sql_column_def job_jsToSql_def
      show_nat_small Let_def Object_prototype_members_def)

text \<open>What Job.update does with the property \<open>companyHandle\<close>, for any payload.\<close>

lemma Job_update_build_strips_companyHandle:
  "Job_update_build rt jobId data =
     Job_update_build rt jobId (js_delete ''companyHandle'' data)"
  by (simp add: Job_update_build_def js_delete_def)

lemma Job_update_build_values:
  "Job_update_build rt jobId data = Inr (UpdateJobs s i, params) \<Longrightarrow>
   params = map snd (js_delete ''companyHandle'' data) @ [jobId]"
  by (auto simp: Job_update_build_def sqlForPartialUpdate_def Object_values_def Let_def
      split: if_splits)

text \<open>
  Claim C10. For every job id and every store, Job.update of a payload whose only
  property is \<open>companyHandle\<close> fails with the bad-request error "No data" of the
  compiler: removing the property leaves the empty mapping. No statement is sent and
  the store is as it was.
\<close>

theorem Job_update_only_companyHandle:
  "Job_update rt query db jobId [(''companyHandle'', h)] =
     (Inl (BadRequestError ''No data''), db)"
  by (simp add: Job_update_def Job_update_build_def js_delete_def sqlForPartialUpdate_def
      Object_keys_def)

end
